theory Spec2Isabelle
  imports Main "HOL-Library.Word"
begin

unbundle bit_operations_syntax

section \<open>Data model of the proposer block layer\<close>

text \<open>
  The development follows \<^verbatim>\<open>vms/proposervm/inner_state.go\<close>: the envelope codec
  (\<^verbatim>\<open>marshal\<close>, \<^verbatim>\<open>unmarshal\<close>), the decorated block (\<^verbatim>\<open>NewProBlock\<close>, \<^verbatim>\<open>sign\<close>,
  \<^verbatim>\<open>Verify\<close>, \<^verbatim>\<open>Accept\<close>, \<^verbatim>\<open>Reject\<close>) and the state store (\<^verbatim>\<open>cacheProBlk\<close>,
  \<^verbatim>\<open>wipeFromCacheProBlk\<close>, \<^verbatim>\<open>commitBlk\<close>, \<^verbatim>\<open>getProBlock\<close>).
  Byte slices are lists of 8-bit words. A slice whose nil-ness the code tests
  (\<^verbatim>\<open>ProposerBlock.bytes\<close>) is an optional list, \<open>None\<close> being the nil slice; every other
  slice is only ever read through its length and contents, so nil and empty coincide there.
\<close>

type_synonym byte = "8 word"
type_synonym byteseq = "byte list"

text \<open>\<^verbatim>\<open>ids.ID\<close> is \<^verbatim>\<open>[32]byte\<close> and \<^verbatim>\<open>ids.ShortID\<close> is \<^verbatim>\<open>[20]byte\<close>.\<close>

typedef id32 = "{xs :: byte list. length xs = 32}"
  by (rule exI [of _ "replicate 32 0"]) simp

setup_lifting type_definition_id32

typedef id20 = "{xs :: byte list. length xs = 20}"
  by (rule exI [of _ "replicate 20 0"]) simp

setup_lifting type_definition_id20

text \<open>The zero value of \<^verbatim>\<open>ids.ID\<close>, which a Go map read returns for a missing key.\<close>

lift_definition zeroID :: id32 is "replicate 32 (0 :: byte)"
  by simp

text \<open>\<^verbatim>\<open>var id ids.ID; copy(id[:], bs)\<close>: the first 32 bytes, zero padded.\<close>

lift_definition copyID :: "byteseq \<Rightarrow> id32" is
  "\<lambda>bs :: byte list. take 32 bs @ replicate (32 - length bs) 0"
  by simp

lift_definition zeroShortID :: id20 is "replicate 20 (0 :: byte)"
  by simp

text \<open>
  The sentinel errors of the package, the ad-hoc error built by \<^verbatim>\<open>fmt.Errorf\<close>, and the
  errors that come from collaborators outside the package (the database, the inner block,
  the signing key), which are propagated unchanged.
\<close>

datatype error =
    ErrInnerBlockNotOracle
  | ErrProBlkNotFound
  | ErrProBlkBadTimestamp
  | ErrInvalidTLSKey
  | ErrInvalidNodeID
  | ErrInvalidSignature
  | ErrProBlkWrongHeight
  | ErrProBlkFailedParsing
  | Errorf string
  | ErrExternal string

text \<open>
  Of \<^verbatim>\<open>x509.Certificate\<close> the code reads \<^verbatim>\<open>Raw\<close> and \<^verbatim>\<open>SignatureAlgorithm\<close>, and its
  public key through \<^verbatim>\<open>CheckSignature\<close>.
\<close>

record Certificate =
  Raw :: byteseq
  SignatureAlgorithm :: nat
  PublicKey :: byteseq

definition emptyCertificate :: Certificate where
  "emptyCertificate = \<lparr>Raw = [], SignatureAlgorithm = 0, PublicKey = []\<rparr>"

record ProposerBlockHeader =
  version :: "16 word"
  prntID :: id32
  timestamp :: "64 word"
  pChainHeight :: "64 word"
  valCert :: Certificate
  signature :: byteseq

definition proBlkVersion :: "16 word" where
  "proBlkVersion = 0"

text \<open>
  \<^verbatim>\<open>marshallingProposerBLock\<close> embeds the header (field \<open>mHeader\<close>) next to the bytes of
  the wrapped block.
\<close>

record marshallingProposerBLock =
  mHeader :: ProposerBlockHeader
  wrpdBytes :: byteseq

section \<open>The packer\<close>

text \<open>
  Modelled from the spec: \<^verbatim>\<open>wrappers.Packer\<close> (package \<^verbatim>\<open>utils/wrappers\<close>) is not among
  the sources. Section 4.1 of the specification fixes what it produces: big-endian fixed
  width integers, byte strings behind a 4-byte big-endian length, a certificate as its
  length-prefixed DER bytes with length 0 for the absent certificate, and a maximum
  encoded size beyond which packing fails. Unpacking fails on truncation.
\<close>

record Packer =
  Errored :: bool
  MaxSize :: nat
  Bytes :: byteseq
  Offset :: nat

definition PutUint16 :: "16 word \<Rightarrow> byteseq" where
  "PutUint16 v = [ucast (drop_bit 8 v), ucast v]"

definition PutUint32 :: "32 word \<Rightarrow> byteseq" where
  "PutUint32 v = [ucast (drop_bit 24 v), ucast (drop_bit 16 v), ucast (drop_bit 8 v), ucast v]"

definition PutUint64 :: "64 word \<Rightarrow> byteseq" where
  "PutUint64 v =
     [ucast (drop_bit 56 v), ucast (drop_bit 48 v), ucast (drop_bit 40 v), ucast (drop_bit 32 v),
      ucast (drop_bit 24 v), ucast (drop_bit 16 v), ucast (drop_bit 8 v), ucast v]"

fun Uint16 :: "byteseq \<Rightarrow> 16 word" where
  "Uint16 (b0 # b1 # _) = ucast b1 OR push_bit 8 (ucast b0)"
| "Uint16 _ = 0"

fun Uint32 :: "byteseq \<Rightarrow> 32 word" where
  "Uint32 (b0 # b1 # b2 # b3 # _) =
     ucast b3 OR push_bit 8 (ucast b2) OR push_bit 16 (ucast b1) OR push_bit 24 (ucast b0)"
| "Uint32 _ = 0"

fun Uint64 :: "byteseq \<Rightarrow> 64 word" where
  "Uint64 (b0 # b1 # b2 # b3 # b4 # b5 # b6 # b7 # _) =
     ucast b7 OR push_bit 8 (ucast b6) OR push_bit 16 (ucast b5) OR push_bit 24 (ucast b4) OR
     push_bit 32 (ucast b3) OR push_bit 40 (ucast b2) OR push_bit 48 (ucast b1) OR
     push_bit 56 (ucast b0)"
| "Uint64 _ = 0"

text \<open>\<^verbatim>\<open>Expand(n)\<close>: make room for \<open>n\<close> more bytes at the offset, or fail past \<open>MaxSize\<close>.\<close>

definition Expand :: "nat \<Rightarrow> Packer \<Rightarrow> Packer" where
  "Expand n p =
     (let neededSize = n + Offset p in
      if neededSize \<le> length (Bytes p) then p
      else if neededSize > MaxSize p then p\<lparr>Errored := True\<rparr>
      else p\<lparr>Bytes := Bytes p @ replicate (neededSize - length (Bytes p)) 0\<rparr>)"

text \<open>\<^verbatim>\<open>CheckSpace(n)\<close>: at least \<open>n\<close> bytes are left to read from the offset.\<close>

definition CheckSpace :: "nat \<Rightarrow> Packer \<Rightarrow> Packer" where
  "CheckSpace n p =
     (if length (Bytes p) - Offset p < n \<or> length (Bytes p) < Offset p
      then p\<lparr>Errored := True\<rparr> else p)"

text \<open>\<^verbatim>\<open>copy(p.Bytes[p.Offset:], bs)\<close> followed by \<^verbatim>\<open>p.Offset += len(bs)\<close>.\<close>

definition writeAt :: "byteseq \<Rightarrow> Packer \<Rightarrow> Packer" where
  "writeAt bs p =
     p\<lparr>Bytes := take (Offset p) (Bytes p) @ bs @ drop (Offset p + length bs) (Bytes p),
       Offset := Offset p + length bs\<rparr>"

definition PackFixedBytes :: "byteseq \<Rightarrow> Packer \<Rightarrow> Packer" where
  "PackFixedBytes bs p =
     (let p1 = Expand (length bs) p in if Errored p1 then p1 else writeAt bs p1)"

definition PackShort :: "16 word \<Rightarrow> Packer \<Rightarrow> Packer" where
  "PackShort v p = (let p1 = Expand 2 p in if Errored p1 then p1 else writeAt (PutUint16 v) p1)"

definition PackInt :: "32 word \<Rightarrow> Packer \<Rightarrow> Packer" where
  "PackInt v p = (let p1 = Expand 4 p in if Errored p1 then p1 else writeAt (PutUint32 v) p1)"

definition PackLong :: "64 word \<Rightarrow> Packer \<Rightarrow> Packer" where
  "PackLong v p = (let p1 = Expand 8 p in if Errored p1 then p1 else writeAt (PutUint64 v) p1)"

definition PackBytes :: "byteseq \<Rightarrow> Packer \<Rightarrow> Packer" where
  "PackBytes bs p = PackFixedBytes bs (PackInt (of_nat (length bs)) p)"

definition PackX509Certificate :: "Certificate \<Rightarrow> Packer \<Rightarrow> Packer" where
  "PackX509Certificate cert p = PackBytes (Raw cert) p"

definition UnpackFixedBytes :: "nat \<Rightarrow> Packer \<Rightarrow> byteseq \<times> Packer" where
  "UnpackFixedBytes n p =
     (let p1 = CheckSpace n p in
      if Errored p1 then ([], p1)
      else (take n (drop (Offset p1) (Bytes p1)), p1\<lparr>Offset := Offset p1 + n\<rparr>))"

definition UnpackShort :: "Packer \<Rightarrow> 16 word \<times> Packer" where
  "UnpackShort p =
     (let p1 = CheckSpace 2 p in
      if Errored p1 then (0, p1)
      else (Uint16 (drop (Offset p1) (Bytes p1)), p1\<lparr>Offset := Offset p1 + 2\<rparr>))"

definition UnpackInt :: "Packer \<Rightarrow> 32 word \<times> Packer" where
  "UnpackInt p =
     (let p1 = CheckSpace 4 p in
      if Errored p1 then (0, p1)
      else (Uint32 (drop (Offset p1) (Bytes p1)), p1\<lparr>Offset := Offset p1 + 4\<rparr>))"

definition UnpackLong :: "Packer \<Rightarrow> 64 word \<times> Packer" where
  "UnpackLong p =
     (let p1 = CheckSpace 8 p in
      if Errored p1 then (0, p1)
      else (Uint64 (drop (Offset p1) (Bytes p1)), p1\<lparr>Offset := Offset p1 + 8\<rparr>))"

definition UnpackBytes :: "Packer \<Rightarrow> byteseq \<times> Packer" where
  "UnpackBytes p = (case UnpackInt p of (sz, p1) \<Rightarrow> UnpackFixedBytes (unat sz) p1)"

text \<open>
  Decoding a certificate: length 0 is the absent certificate (no error, \<open>None\<close>); any other
  byte string goes through the X.509 parser \<open>parse\<close> (\<^verbatim>\<open>x509.ParseCertificate\<close>, a
  parameter), whose failure is a packer error.
\<close>

definition UnpackX509Certificate ::
  "(byteseq \<Rightarrow> Certificate option) \<Rightarrow> Packer \<Rightarrow> Certificate option \<times> Packer" where
  "UnpackX509Certificate parse p =
     (case UnpackBytes p of (b, p1) \<Rightarrow>
        if Errored p1 then (None, p1)
        else if b = [] then (None, p1)
        else (case parse b of
                None \<Rightarrow> (None, p1\<lparr>Errored := True\<rparr>)
              | Some c \<Rightarrow> (Some c, p1)))"

section \<open>The envelope codec\<close>

definition marshal :: "marshallingProposerBLock \<Rightarrow> error + byteseq" where
  "marshal mPb =
     (let p0 = \<lparr>Errored = False, MaxSize = 2 ^ 18, Bytes = [], Offset = 0\<rparr>;
          p1 = PackShort (version (mHeader mPb)) p0 in
      if Errored p1 then Inl ErrProBlkFailedParsing else
      let p2 = PackBytes (Rep_id32 (prntID (mHeader mPb))) p1 in
      if Errored p2 then Inl ErrProBlkFailedParsing else
      let p3 = PackLong (timestamp (mHeader mPb)) p2 in
      if Errored p3 then Inl ErrProBlkFailedParsing else
      let p4 = PackLong (pChainHeight (mHeader mPb)) p3 in
      if Errored p4 then Inl ErrProBlkFailedParsing else
      let p5 = PackX509Certificate (valCert (mHeader mPb)) p4 in
      if Errored p5 then Inl ErrProBlkFailedParsing else
      let p6 = PackBytes (signature (mHeader mPb)) p5 in
      if Errored p6 then Inl ErrProBlkFailedParsing else
      let p7 = PackBytes (wrpdBytes mPb) p6 in
      if Errored p7 then Inl ErrProBlkFailedParsing else
      Inr (Bytes p7))"

text \<open>
  \<^verbatim>\<open>unmarshal\<close> writes into its receiver field by field, so the model takes the receiver and
  returns it as it is left, with the error if there is one.
\<close>

definition unmarshal ::
  "(byteseq \<Rightarrow> Certificate option) \<Rightarrow> marshallingProposerBLock \<Rightarrow> byteseq \<Rightarrow>
     error option \<times> marshallingProposerBLock" where
  "unmarshal parse mPb b =
     (let p0 = \<lparr>Errored = False, MaxSize = 0, Bytes = b, Offset = 0\<rparr> in
      case UnpackShort p0 of (v, p1) \<Rightarrow>
      let m1 = mPb\<lparr>mHeader := (mHeader mPb)\<lparr>version := v\<rparr>\<rparr> in
      if Errored p1 then (Some ErrProBlkFailedParsing, m1) else
      case UnpackBytes p1 of (prntIDBytes, p2) \<Rightarrow>
      if Errored p2 then (Some ErrProBlkFailedParsing, m1)
      else if length prntIDBytes \<noteq> 32 then (Some ErrProBlkFailedParsing, m1) else
      let m2 = m1\<lparr>mHeader := (mHeader m1)\<lparr>prntID := Abs_id32 prntIDBytes\<rparr>\<rparr> in
      case UnpackLong p2 of (ts, p3) \<Rightarrow>
      let m3 = m2\<lparr>mHeader := (mHeader m2)\<lparr>timestamp := ts\<rparr>\<rparr> in
      if Errored p3 then (Some ErrProBlkFailedParsing, m3) else
      case UnpackLong p3 of (h, p4) \<Rightarrow>
      let m4 = m3\<lparr>mHeader := (mHeader m3)\<lparr>pChainHeight := h\<rparr>\<rparr> in
      if Errored p4 then (Some ErrProBlkFailedParsing, m4) else
      case UnpackX509Certificate parse p4 of (pValCert, p5) \<Rightarrow>
      if Errored p5 then (Some ErrProBlkFailedParsing, m4) else
      let m5 = m4\<lparr>mHeader := (mHeader m4)\<lparr>valCert :=
                   (case pValCert of Some c \<Rightarrow> c | None \<Rightarrow> emptyCertificate)\<rparr>\<rparr> in
      case UnpackBytes p5 of (sig, p6) \<Rightarrow>
      let m6 = m5\<lparr>mHeader := (mHeader m5)\<lparr>signature := sig\<rparr>\<rparr> in
      if Errored p6 then (Some ErrProBlkFailedParsing, m6) else
      case UnpackBytes p6 of (wb, p7) \<Rightarrow>
      let m7 = m6\<lparr>wrpdBytes := wb\<rparr> in
      if Errored p7 then (Some ErrProBlkFailedParsing, m7) else
      (None, m7))"

section \<open>Collaborators\<close>

text \<open>
  The wrapped block is a \<^verbatim>\<open>snowman.Block\<close>. The layer calls \<^verbatim>\<open>ID()\<close>, \<^verbatim>\<open>Bytes()\<close>,
  \<^verbatim>\<open>Verify()\<close>, \<^verbatim>\<open>Accept()\<close> and \<^verbatim>\<open>Reject()\<close> on it; the record holds what each returns.
\<close>

record coreBlock =
  coreID :: id32
  coreBytes :: byteseq
  coreVerify :: "error option"
  coreAccept :: "error option"
  coreReject :: "error option"

text \<open>
  \<^verbatim>\<open>ProposerBlock\<close>. The field \<^verbatim>\<open>id\<close> is \<open>id_pb\<close> here; the back pointer \<^verbatim>\<open>vm\<close> is
  passed to each operation instead of being stored.
\<close>

record ProposerBlock =
  header :: ProposerBlockHeader
  coreBlk :: coreBlock
  id_pb :: id32
  bytes :: "byteseq option"

text \<open>The contents of a slice that may be nil.\<close>

definition sliceBytes :: "byteseq option \<Rightarrow> byteseq" where
  "sliceBytes s = (case s of None \<Rightarrow> [] | Some bs \<Rightarrow> bs)"

text \<open>
  Go's \<^verbatim>\<open>time.Time\<close>, as its methods \<^verbatim>\<open>sec()\<close> and \<^verbatim>\<open>nsec()\<close> read it: the seconds
  since January 1 of year 1, a signed 64-bit number, and the nanoseconds within the second,
  from 0 to 999999999. \<^verbatim>\<open>Before\<close> and \<^verbatim>\<open>After\<close> compare these two readings whenever
  one of the times has no monotonic clock reading, which is the case of every time that
  \<^verbatim>\<open>time.Unix\<close> builds. A \<^verbatim>\<open>time.Duration\<close> is a signed 64-bit count of nanoseconds.
\<close>

record Time =
  sec :: "64 word"
  nsec :: int

text \<open>
  What the code asks of \<^verbatim>\<open>VM\<close>: the current P-chain height, the clock, the submission
  delay of a node at a height (a \<^verbatim>\<open>time.Duration\<close>), the parser of the wrapped chain and
  the staking key. The key is \<open>None\<close> when it is not a \<^verbatim>\<open>crypto.Signer\<close>; otherwise it
  maps a digest to a signature or an error.
\<close>

record VM =
  vm_pChainHeight :: "64 word"
  vm_now :: Time
  BlkSubmissionDelay :: "64 word \<Rightarrow> id20 \<Rightarrow> 64 word"
  ParseBlock :: "byteseq \<Rightarrow> error + coreBlock"
  stakingSigner :: "(byteseq \<Rightarrow> error + byteseq) option"

text \<open>
  The library functions the code calls: SHA-256 (\<^verbatim>\<open>hashing.ComputeHash256Array\<close>), the
  address of a public key (\<^verbatim>\<open>hashing.PubkeyBytesToAddress\<close>), the X.509 parser and
  \<^verbatim>\<open>Certificate.CheckSignature\<close> (\<open>True\<close> when it returns no error). They are parameters
  of the model. So is the one point on which releases of Go's \<^verbatim>\<open>time\<close> package differ:
  the seconds that \<^verbatim>\<open>Time.Add\<close> yields when adding to the seconds overflows 64 bits
  (\<open>addSecOverflow\<close>, given the seconds and the summand).
\<close>

record Crypto =
  ComputeHash256Array :: "byteseq \<Rightarrow> id32"
  PubkeyBytesToAddress :: "byteseq \<Rightarrow> byteseq"
  ParseCertificate :: "byteseq \<Rightarrow> Certificate option"
  CheckSignature :: "Certificate \<Rightarrow> nat \<Rightarrow> byteseq \<Rightarrow> byteseq \<Rightarrow> bool"
  addSecOverflow :: "64 word \<Rightarrow> 64 word \<Rightarrow> 64 word"

text \<open>
  Modelled from the spec: \<^verbatim>\<open>ids.ToShortID\<close> is not among the sources. Section 4.2, step 7
  derives the node id as a 20-byte address and lets the extraction fail.
\<close>

definition ToShortID :: "byteseq \<Rightarrow> error + id20" where
  "ToShortID bs =
     (if length bs \<noteq> 20 then Inl (ErrExternal ''bad short id length'') else Inr (Abs_id20 bs))"

text \<open>
  \<^verbatim>\<open>time.Unix(s, 0)\<close> adds the seconds between year 1 and 1970 to \<open>s\<close> in 64-bit
  arithmetic, so it wraps around for \<open>s\<close> above \<open>2^63 - 1 - 62135596800\<close>.
\<close>

definition unixToInternal :: "64 word" where
  "unixToInternal = 62135596800"

definition time_Unix :: "64 word \<Rightarrow> Time" where
  "time_Unix s = \<lparr>sec = s + unixToInternal, nsec = 0\<rparr>"

text \<open>Go's \<^verbatim>\<open>/\<close> and \<^verbatim>\<open>%\<close> on integers truncate towards zero.\<close>

definition go_quo :: "int \<Rightarrow> int \<Rightarrow> int" where
  "go_quo a b = sgn a * sgn b * (\<bar>a\<bar> div \<bar>b\<bar>)"

definition go_rem :: "int \<Rightarrow> int \<Rightarrow> int" where
  "go_rem a b = a - b * go_quo a b"

text \<open>
  \<^verbatim>\<open>addSec\<close>: the sum of the seconds and \<open>d\<close> when it is a 64-bit number, and what the
  release at hand does otherwise.
\<close>

definition addSec :: "(64 word \<Rightarrow> 64 word \<Rightarrow> 64 word) \<Rightarrow> 64 word \<Rightarrow> 64 word \<Rightarrow> 64 word" where
  "addSec overflow s d =
     (if - (2 ^ 63) \<le> sint s + sint d \<and> sint s + sint d < 2 ^ 63 then s + d else overflow s d)"

text \<open>
  \<^verbatim>\<open>Time.Add\<close>: the duration is split into seconds and nanoseconds, the nanoseconds are
  added and brought back between 0 and 999999999 by a carry, and the seconds are added.
\<close>

definition time_Add :: "(64 word \<Rightarrow> 64 word \<Rightarrow> 64 word) \<Rightarrow> Time \<Rightarrow> 64 word \<Rightarrow> Time" where
  "time_Add overflow t d =
     (let dsec = go_quo (sint d) 1000000000;
          ns = nsec t + go_rem (sint d) 1000000000
      in if ns \<ge> 1000000000
         then \<lparr>sec = addSec overflow (sec t) (word_of_int (dsec + 1)), nsec = ns - 1000000000\<rparr>
         else if ns < 0
         then \<lparr>sec = addSec overflow (sec t) (word_of_int (dsec - 1)), nsec = ns + 1000000000\<rparr>
         else \<lparr>sec = addSec overflow (sec t) (word_of_int dsec), nsec = ns\<rparr>)"

definition time_Before :: "Time \<Rightarrow> Time \<Rightarrow> bool" where
  "time_Before t u = (sint (sec t) < sint (sec u) \<or> (sec t = sec u \<and> nsec t < nsec u))"

definition time_After :: "Time \<Rightarrow> Time \<Rightarrow> bool" where
  "time_After t u = (sint (sec t) > sint (sec u) \<or> (sec t = sec u \<and> nsec t > nsec u))"

definition BlkSubmissionTolerance :: "64 word" where
  "BlkSubmissionTolerance = 10 * 1000000000"

definition BlkSubmissionWinLength :: "64 word" where
  "BlkSubmissionWinLength = 2 * 1000000000"

section \<open>The state store\<close>

text \<open>
  \<^verbatim>\<open>innerState\<close>: the two caches and the two prefixed databases, each database a keyed
  store of byte strings in its own namespace. The version layer \<^verbatim>\<open>baseDB\<close> holds no data
  of its own here: \<^verbatim>\<open>init\<close> builds both prefixed databases on the backing database, not
  on \<^verbatim>\<open>baseDB\<close>.
\<close>

record innerState =
  knownProBlocks :: "id32 \<rightharpoonup> ProposerBlock"
  wrpdToProID :: "id32 \<rightharpoonup> id32"
  proBlkDB :: "byteseq \<rightharpoonup> byteseq"
  wrpdToProIDDB :: "byteseq \<rightharpoonup> byteseq"

text \<open>
  Modelled from the spec: the database packages (\<^verbatim>\<open>prefixdb\<close>, \<^verbatim>\<open>versiondb\<close>) are not
  among the sources. Section 2 treats the store as an opaque byte store with \<^verbatim>\<open>Put\<close>,
  \<^verbatim>\<open>Get\<close> and a batched commit, any of which may fail. The record holds the errors that
  the database calls of \<^verbatim>\<open>commitBlk\<close> return in one run, in the order of the calls: the
  two \<^verbatim>\<open>Put\<close>s, \<^verbatim>\<open>CommitBatch\<close> and \<^verbatim>\<open>batch.Write\<close>. A \<^verbatim>\<open>Put\<close> that returns no
  error stores the value under the key; one that returns an error stores nothing. A
  \<^verbatim>\<open>Get\<close> is a lookup, and fails on a missing key.
\<close>

record dbFaults =
  putProBlkErr :: "error option"
  putWrpdErr :: "error option"
  commitBatchErr :: "error option"
  batchWriteErr :: "error option"

definition newState :: innerState where
  "newState = \<lparr>knownProBlocks = Map.empty, wrpdToProID = Map.empty,
                proBlkDB = Map.empty, wrpdToProIDDB = Map.empty\<rparr>"

definition ID :: "ProposerBlock \<Rightarrow> id32" where
  "ID pb = id_pb pb"

definition cacheProBlk :: "ProposerBlock \<Rightarrow> innerState \<Rightarrow> innerState" where
  "cacheProBlk blk is =
     (let is1 = is\<lparr>knownProBlocks := (knownProBlocks is)(ID blk \<mapsto> blk)\<rparr>
      in is1\<lparr>wrpdToProID := (wrpdToProID is1)(coreID (coreBlk blk) \<mapsto> ID blk)\<rparr>)"

definition wipeFromCacheProBlk :: "id32 \<Rightarrow> innerState \<Rightarrow> innerState" where
  "wipeFromCacheProBlk i is =
     (case knownProBlocks is i of
        Some blk \<Rightarrow>
          (let is1 = is\<lparr>wrpdToProID := (wrpdToProID is)(coreID (coreBlk blk) := None)\<rparr>
           in is1\<lparr>knownProBlocks := (knownProBlocks is1)(i := None)\<rparr>)
      | None \<Rightarrow> is)"

text \<open>
  \<^verbatim>\<open>commitBlk\<close>. The value written to the inverse store is read from the inverse cache,
  where a missing key reads as the zero id. The deferred \<^verbatim>\<open>baseDB.Abort()\<close> acts on the
  version layer only, which neither prefixed database writes through.
\<close>

definition commitBlk :: "dbFaults \<Rightarrow> innerState \<Rightarrow> ProposerBlock \<Rightarrow> error option \<times> innerState" where
  "commitBlk f is blk =
     (case putProBlkErr f of
        Some err \<Rightarrow> (Some err, wipeFromCacheProBlk (ID blk) is)
      | None \<Rightarrow>
          let is1 = is\<lparr>proBlkDB := (proBlkDB is)(Rep_id32 (id_pb blk) \<mapsto> sliceBytes (bytes blk))\<rparr>;
              wrpdID = coreID (coreBlk blk);
              val = (case wrpdToProID is1 wrpdID of Some v \<Rightarrow> v | None \<Rightarrow> zeroID)
          in case putWrpdErr f of
               Some err \<Rightarrow> (Some err, wipeFromCacheProBlk (ID blk) is1)
             | None \<Rightarrow>
                 let is2 = is1\<lparr>wrpdToProIDDB :=
                                 (wrpdToProIDDB is1)(Rep_id32 wrpdID \<mapsto> Rep_id32 val)\<rparr>
                 in case commitBatchErr f of
                      Some err \<Rightarrow> (Some err, wipeFromCacheProBlk (ID blk) is2)
                    | None \<Rightarrow> (batchWriteErr f, is2))"

definition wipeCache :: "innerState \<Rightarrow> innerState" where
  "wipeCache is = is\<lparr>knownProBlocks := Map.empty, wrpdToProID := Map.empty\<rparr>"

section \<open>The decorated block\<close>

definition NewProHeader :: "id32 \<Rightarrow> 64 word \<Rightarrow> 64 word \<Rightarrow> Certificate \<Rightarrow> ProposerBlockHeader" where
  "NewProHeader p unixTime height cert =
     \<lparr>version = proBlkVersion, prntID = p, timestamp = unixTime, pChainHeight = height,
      valCert = cert, signature = []\<rparr>"

definition getBytes :: "ProposerBlock \<Rightarrow> byteseq" where
  "getBytes pb =
     (case marshal \<lparr>mHeader = header pb, wrpdBytes = coreBytes (coreBlk pb)\<rparr> of
        Inl err \<Rightarrow> []
      | Inr res \<Rightarrow> res)"

text \<open>\<^verbatim>\<open>Bytes()\<close> returns the bytes and leaves them stored in the block.\<close>

definition Bytes_pb :: "ProposerBlock \<Rightarrow> byteseq \<times> ProposerBlock" where
  "Bytes_pb pb =
     (case bytes pb of
        None \<Rightarrow> (let b = getBytes pb in (b, pb\<lparr>bytes := Some b\<rparr>))
      | Some b \<Rightarrow> (b, pb))"

text \<open>
  \<^verbatim>\<open>sign\<close> clears the signature before anything else, so the block comes back changed on
  its error paths too.
\<close>

definition sign :: "Crypto \<Rightarrow> VM \<Rightarrow> ProposerBlock \<Rightarrow> error option \<times> ProposerBlock" where
  "sign cr vm pb =
     (let pb1 = pb\<lparr>header := (header pb)\<lparr>signature := []\<rparr>\<rparr>;
          msgHash = ComputeHash256Array cr (getBytes pb1)
      in case stakingSigner vm of
           None \<Rightarrow> (Some ErrInvalidTLSKey, pb1)
         | Some signKey \<Rightarrow>
             (case signKey (Rep_id32 msgHash) of
                Inl err \<Rightarrow> (Some err, pb1)
              | Inr sig \<Rightarrow> (None, pb1\<lparr>header := (header pb1)\<lparr>signature := sig\<rparr>\<rparr>)))"

definition NewProBlock ::
  "Crypto \<Rightarrow> VM \<Rightarrow> ProposerBlockHeader \<Rightarrow> coreBlock \<Rightarrow> byteseq option \<Rightarrow> bool \<Rightarrow>
     error + ProposerBlock" where
  "NewProBlock cr vm hdr sb bs signBlk =
     (let res = \<lparr>header = hdr, coreBlk = sb, id_pb = zeroID, bytes = bs\<rparr>;
          signed = (if signBlk then sign cr vm res else (None, res))
      in case signed of
           (Some err, _) \<Rightarrow> Inl err
         | (None, res1) \<Rightarrow>
             let res2 = (if bs = None then res1\<lparr>bytes := Some (fst (Bytes_pb res1))\<rparr> else res1)
             in Inr (res2\<lparr>id_pb := ComputeHash256Array cr (sliceBytes (bytes res2))\<rparr>))"

text \<open>The zero value that \<^verbatim>\<open>var mPb marshallingProposerBLock\<close> declares.\<close>

definition zeroMarshallingProposerBLock :: marshallingProposerBLock where
  "zeroMarshallingProposerBLock =
     \<lparr>mHeader = \<lparr>version = 0, prntID = zeroID, timestamp = 0, pChainHeight = 0,
                 valCert = emptyCertificate, signature = []\<rparr>,
      wrpdBytes = []\<rparr>"

text \<open>
  \<^verbatim>\<open>getProBlock\<close>. The code drops the error of \<^verbatim>\<open>NewProBlock\<close>, which only signing can
  raise and which is called without signing; the model keeps the branch for totality.
\<close>

definition getProBlock ::
  "Crypto \<Rightarrow> VM \<Rightarrow> innerState \<Rightarrow> id32 \<Rightarrow> (error + ProposerBlock) \<times> innerState" where
  "getProBlock cr vm is i =
     (case knownProBlocks is i of
        Some proBlk \<Rightarrow> (Inr proBlk, is)
      | None \<Rightarrow>
          (case proBlkDB is (Rep_id32 i) of
             None \<Rightarrow> (Inl ErrProBlkNotFound, is)
           | Some proBytes \<Rightarrow>
               (case unmarshal (ParseCertificate cr)
                       zeroMarshallingProposerBLock proBytes of
                  (Some err, _) \<Rightarrow>
                    (Inl (Errorf ''couldn't unmarshal proposerBlockHeader: could not parse proposer block''), is)
                | (None, mPb) \<Rightarrow>
                    (case ParseBlock vm (wrpdBytes mPb) of
                       Inl err \<Rightarrow> (Inl err, is)
                     | Inr sb \<Rightarrow>
                         (case NewProBlock cr vm (mHeader mPb) sb (Some proBytes) False of
                            Inl err \<Rightarrow> (Inl err, is)
                          | Inr proBlk \<Rightarrow> (Inr proBlk, cacheProBlk proBlk is))))))"

definition getBlockFromWrappedBlkID ::
  "Crypto \<Rightarrow> VM \<Rightarrow> innerState \<Rightarrow> id32 \<Rightarrow> (error + ProposerBlock option) \<times> innerState" where
  "getBlockFromWrappedBlkID cr vm is wrappedID =
     (case wrpdToProID is wrappedID of
        Some proID \<Rightarrow> (Inr (knownProBlocks is proID), is)
      | None \<Rightarrow>
          (case wrpdToProIDDB is (Rep_id32 wrappedID) of
             None \<Rightarrow> (Inl ErrProBlkNotFound, is)
           | Some proIDBytes \<Rightarrow>
               (case getProBlock cr vm is (copyID proIDBytes) of
                  (Inl err, is1) \<Rightarrow> (Inl err, is1)
                | (Inr blk, is1) \<Rightarrow> (Inr (Some blk), is1))))"

definition Accept :: "innerState \<Rightarrow> ProposerBlock \<Rightarrow> error option \<times> innerState" where
  "Accept is pb =
     (let err = coreAccept (coreBlk pb)
      in (err, if err = None then wipeFromCacheProBlk (prntID (header pb)) is else is))"

definition Reject :: "innerState \<Rightarrow> ProposerBlock \<Rightarrow> error option \<times> innerState" where
  "Reject is pb =
     (let err = coreReject (coreBlk pb)
      in (err, if err = None then wipeFromCacheProBlk (id_pb pb) is else is))"

text \<open>
  Lines 317 to 335 of \<^verbatim>\<open>Verify\<close>: the signature and the bytes are copied aside and
  cleared, the envelope is recomputed, both are put back, and the certificate checks the
  signature over the recomputed envelope.
\<close>

definition verifySignature :: "Crypto \<Rightarrow> ProposerBlock \<Rightarrow> error option \<times> ProposerBlock" where
  "verifySignature cr pb =
     (let blkSignature = signature (header pb);
          pb1 = pb\<lparr>header := (header pb)\<lparr>signature := []\<rparr>\<rparr>;
          blkBytes = sliceBytes (bytes pb1);
          pb2 = pb1\<lparr>bytes := Some []\<rparr>;
          signedBytes = getBytes pb2;
          pb3 = pb2\<lparr>header := (header pb2)\<lparr>signature := blkSignature\<rparr>\<rparr>;
          pb4 = pb3\<lparr>bytes := Some blkBytes\<rparr>
      in if \<not> CheckSignature cr (valCert (header pb4)) (SignatureAlgorithm (valCert (header pb4)))
                 signedBytes (signature (header pb4))
         then (Some ErrInvalidSignature, pb4)
         else (None, pb4))"

text \<open>
  \<^verbatim>\<open>Verify\<close> returns its error, the state (the parent lookup may fill the cache) and the
  block as the call leaves it.
\<close>

definition Verify ::
  "Crypto \<Rightarrow> VM \<Rightarrow> innerState \<Rightarrow> ProposerBlock \<Rightarrow> error option \<times> innerState \<times> ProposerBlock" where
  "Verify cr vm is pb =
     (if version (header pb) \<noteq> proBlkVersion then (Some (Errorf ''codecVersion not matching''), is, pb)
      else case coreVerify (coreBlk pb) of
        Some err \<Rightarrow> (Some err, is, pb)
      | None \<Rightarrow>
          (case getProBlock cr vm is (prntID (header pb)) of
             (Inl err, is1) \<Rightarrow> (Some ErrProBlkNotFound, is1, pb)
           | (Inr prntBlk, is1) \<Rightarrow>
               if pChainHeight (header pb) < pChainHeight (header prntBlk)
               then (Some ErrProBlkWrongHeight, is1, pb)
               else if pChainHeight (header pb) > vm_pChainHeight vm
               then (Some ErrProBlkWrongHeight, is1, pb)
               else if sint (timestamp (header pb)) < sint (timestamp (header prntBlk))
               then (Some ErrProBlkBadTimestamp, is1, pb)
               else case ToShortID (PubkeyBytesToAddress cr (Raw (valCert (header pb)))) of
                 Inl err \<Rightarrow> (Some ErrInvalidNodeID, is1, pb)
               | Inr nodeID \<Rightarrow>
                   let blkWinDelay = BlkSubmissionDelay vm (pChainHeight (header pb)) nodeID;
                       blkWinStart = time_Add (addSecOverflow cr)
                                       (time_Unix (timestamp (header prntBlk))) blkWinDelay
                   in if time_Before (time_Unix (timestamp (header pb))) blkWinStart
                      then (Some ErrProBlkBadTimestamp, is1, pb)
                      else if time_After (time_Unix (timestamp (header pb)))
                                (time_Add (addSecOverflow cr) (vm_now vm) BlkSubmissionTolerance)
                      then (Some ErrProBlkBadTimestamp, is1, pb)
                      else case verifySignature cr pb of (err, pb1) \<Rightarrow> (err, is1, pb1)))"

section \<open>The envelope of the specification\<close>

text \<open>
  The envelope as section 4.1 of the specification tabulates it, field by field: version
  (2 bytes), parent id (length prefix 32, then 32 bytes), timestamp and reference height
  (8 bytes each), then certificate, signature and inner bytes, each behind its 4-byte
  length. All integers are big-endian. \<open>envelopeSize\<close> is its length, to be compared with
  the maximum of \<open>2^18\<close> bytes.
\<close>

definition envelope :: "marshallingProposerBLock \<Rightarrow> byteseq" where
  "envelope mPb =
     PutUint16 (version (mHeader mPb)) @
     PutUint32 32 @ Rep_id32 (prntID (mHeader mPb)) @
     PutUint64 (timestamp (mHeader mPb)) @
     PutUint64 (pChainHeight (mHeader mPb)) @
     PutUint32 (of_nat (length (Raw (valCert (mHeader mPb))))) @ Raw (valCert (mHeader mPb)) @
     PutUint32 (of_nat (length (signature (mHeader mPb)))) @ signature (mHeader mPb) @
     PutUint32 (of_nat (length (wrpdBytes mPb))) @ wrpdBytes mPb"

definition envelopeSize :: "marshallingProposerBLock \<Rightarrow> nat" where
  "envelopeSize mPb =
     2 + (4 + 32) + 8 + 8 + (4 + length (Raw (valCert (mHeader mPb)))) +
     (4 + length (signature (mHeader mPb))) + (4 + length (wrpdBytes mPb))"

text \<open>
  A certificate is well formed for a parser when it is the empty certificate of a genesis
  block, or has DER bytes that the parser reads back as this certificate.
\<close>

definition wellFormedCert :: "(byteseq \<Rightarrow> Certificate option) \<Rightarrow> Certificate \<Rightarrow> bool" where
  "wellFormedCert parse c = (if Raw c = [] then c = emptyCertificate else parse (Raw c) = Some c)"

text \<open>
  The two shapes a packer has in the codec: writing at the end of its buffer, and reading a
  fixed buffer at an offset.
\<close>

definition writer :: "nat \<Rightarrow> byteseq \<Rightarrow> Packer" where
  "writer m bs = \<lparr>Errored = False, MaxSize = m, Bytes = bs, Offset = length bs\<rparr>"

definition reader :: "byteseq \<Rightarrow> nat \<Rightarrow> Packer" where
  "reader bs off = \<lparr>Errored = False, MaxSize = 0, Bytes = bs, Offset = off\<rparr>"

text \<open>
  The message of the specification: the envelope produced with the signature set to empty.
  It is defined for every header; where that envelope would exceed the maximum size it is
  the empty byte string, which is what \<^verbatim>\<open>getBytes\<close> makes of a failed \<^verbatim>\<open>marshal\<close>.
\<close>

definition signedMessage :: "ProposerBlockHeader \<Rightarrow> byteseq \<Rightarrow> byteseq" where
  "signedMessage hdr inner =
     (if envelopeSize \<lparr>mHeader = hdr\<lparr>signature := []\<rparr>, wrpdBytes = inner\<rparr> \<le> 2 ^ 18
      then envelope \<lparr>mHeader = hdr\<lparr>signature := []\<rparr>, wrpdBytes = inner\<rparr>
      else [])"


section \<open>Example inputs\<close>

text \<open>
  Concrete collaborators and blocks on which the theorems below are instantiated. The hash
  stand-in pads or truncates its input to 32 bytes and an overflowing \<^verbatim>\<open>Time.Add\<close> wraps
  around; the clock reads 1010 s, the P-chain height is 10 and every node has a submission
  delay of 5 s. The parent block has timestamp 1000 and height 7 and is in the cache of
  \<open>cacheProBlk parentBlk newState\<close>.
\<close>

definition stubCrypto :: Crypto where
  "stubCrypto =
     \<lparr>ComputeHash256Array = copyID, PubkeyBytesToAddress = (\<lambda>k. replicate 20 0),
      ParseCertificate = (\<lambda>b. None), CheckSignature = (\<lambda>c a m s. True),
      addSecOverflow = (\<lambda>s d. s + d)\<rparr>"

definition exampleVM :: VM where
  "exampleVM =
     \<lparr>vm_pChainHeight = 10, vm_now = time_Unix 1010,
      BlkSubmissionDelay = (\<lambda>h n. 5 * 1000000000),
      ParseBlock = (\<lambda>b. Inl (ErrExternal ''no inner parser'')),
      stakingSigner = Some (\<lambda>digest. Inr digest)\<rparr>"

definition parentBlk :: ProposerBlock where
  "parentBlk =
     \<lparr>header = NewProHeader zeroID 1000 7 emptyCertificate,
      coreBlk = \<lparr>coreID = copyID [1], coreBytes = [], coreVerify = None, coreAccept = None,
                 coreReject = None\<rparr>,
      id_pb = copyID [2], bytes = Some [0]\<rparr>"

definition childBlk :: "16 word \<Rightarrow> 64 word \<Rightarrow> 64 word \<Rightarrow> error option \<Rightarrow> ProposerBlock" where
  "childBlk v ts h acc =
     \<lparr>header = (NewProHeader (copyID [2]) ts h emptyCertificate)\<lparr>version := v\<rparr>,
      coreBlk = \<lparr>coreID = copyID [3], coreBytes = [], coreVerify = None, coreAccept = acc,
                 coreReject = None\<rparr>,
      id_pb = copyID [4], bytes = Some [1]\<rparr>"

text \<open>
  A block whose inner bytes alone fill the maximum envelope size, and its bytes not yet
  computed.
\<close>

definition oversizeBlk :: ProposerBlock where
  "oversizeBlk = parentBlk\<lparr>coreBlk := (coreBlk parentBlk)\<lparr>coreBytes := replicate (2 ^ 18) 0\<rparr>,
                            bytes := None\<rparr>"

text \<open>Database behaviours: every call succeeds; only the final batch write fails.\<close>

definition noFaults :: dbFaults where
  "noFaults = \<lparr>putProBlkErr = None, putWrpdErr = None, commitBatchErr = None,
                batchWriteErr = None\<rparr>"

definition writeFails :: dbFaults where
  "writeFails = \<lparr>putProBlkErr = None, putWrpdErr = None, commitBatchErr = None,
                  batchWriteErr = Some (ErrExternal ''batch write failed'')\<rparr>"


definition oversizeChild :: ProposerBlock where
  "oversizeChild =
     (childBlk 0 1005 7 None)\<lparr>coreBlk := (coreBlk (childBlk 0 1005 7 None))
                                  \<lparr>coreBytes := replicate (2 ^ 18) 0\<rparr>\<rparr>"

definition pickyCrypto :: "byteseq \<Rightarrow> Crypto" where
  "pickyCrypto msg = stubCrypto\<lparr>CheckSignature := (\<lambda>c a m s. m = msg)\<rparr>"

section \<open>Helper facts\<close>

lemma copyID_eq_iff:
  "copyID a = copyID b \<longleftrightarrow>
     take 32 a @ replicate (32 - length a) 0 = take 32 b @ replicate (32 - length b) 0"
  by (simp add: Rep_id32_inject [symmetric] copyID.rep_eq)

lemmas example_defs = stubCrypto_def exampleVM_def parentBlk_def childBlk_def NewProHeader_def
  proBlkVersion_def cacheProBlk_def newState_def ID_def getProBlock_def emptyCertificate_def

lemma getProBlock_example:
  "getProBlock stubCrypto exampleVM (cacheProBlk parentBlk newState)
       (prntID (header (childBlk v ts h acc)))
     = (Inr parentBlk, cacheProBlk parentBlk newState)"
  by (simp add: example_defs)


lemma verifySignature_err:
  "fst (verifySignature cr pb) = None \<or> fst (verifySignature cr pb) = Some ErrInvalidSignature"
  by (simp add: verifySignature_def Let_def)

lemma verifySignature_frame:
  "header (snd (verifySignature cr pb)) = header pb \<and>
   coreBlk (snd (verifySignature cr pb)) = coreBlk pb \<and>
   id_pb (snd (verifySignature cr pb)) = id_pb pb \<and>
   bytes (snd (verifySignature cr pb)) = Some (sliceBytes (bytes pb))"
  by (simp add: verifySignature_def Let_def)

section \<open>Facts about the packer\<close>

lemma length_Put [simp]:
  "length (PutUint16 a) = 2" "length (PutUint32 b) = 4" "length (PutUint64 c) = 8"
  by (simp_all add: PutUint16_def PutUint32_def PutUint64_def)

lemma byte_slice_bit:
  fixes v :: "'a::len word"
  shows "bit (push_bit k (ucast (ucast (drop_bit k v) :: byte)) :: 'a word) n
           \<longleftrightarrow> k \<le> n \<and> n < k + 8 \<and> bit v n"
  by (auto simp: bit_simps dest: bit_imp_le_length)

lemma Uint16_Put: "Uint16 (PutUint16 v @ r) = v"
proof (rule bit_word_eqI)
  fix n assume "n < LENGTH(16)"
  then have n: "n < 16" by simp
  have e: "Uint16 (PutUint16 v @ r) =
      push_bit 0 (ucast (ucast (drop_bit 0 v) :: byte)) OR push_bit 8 (ucast (ucast (drop_bit 8 v) :: byte))"
    by (simp add: PutUint16_def)
  show "bit (Uint16 (PutUint16 v @ r)) n = bit v n"
    unfolding e bit_or_iff byte_slice_bit using n by auto
qed

lemma Uint32_Put: "Uint32 (PutUint32 v @ r) = v"
proof (rule bit_word_eqI)
  fix n assume "n < LENGTH(32)"
  then have n: "n < 32" by simp
  have e: "Uint32 (PutUint32 v @ r) =
      push_bit 0 (ucast (ucast (drop_bit 0 v) :: byte)) OR push_bit 8 (ucast (ucast (drop_bit 8 v) :: byte))
      OR push_bit 16 (ucast (ucast (drop_bit 16 v) :: byte)) OR push_bit 24 (ucast (ucast (drop_bit 24 v) :: byte))"
    by (simp add: PutUint32_def)
  show "bit (Uint32 (PutUint32 v @ r)) n = bit v n"
    unfolding e bit_or_iff byte_slice_bit using n by auto
qed

lemma Uint64_Put: "Uint64 (PutUint64 v @ r) = v"
proof (rule bit_word_eqI)
  fix n assume "n < LENGTH(64)"
  then have n: "n < 64" by simp
  have e: "Uint64 (PutUint64 v @ r) =
      push_bit 0 (ucast (ucast (drop_bit 0 v) :: byte)) OR push_bit 8 (ucast (ucast (drop_bit 8 v) :: byte))
      OR push_bit 16 (ucast (ucast (drop_bit 16 v) :: byte)) OR push_bit 24 (ucast (ucast (drop_bit 24 v) :: byte))
      OR push_bit 32 (ucast (ucast (drop_bit 32 v) :: byte)) OR push_bit 40 (ucast (ucast (drop_bit 40 v) :: byte))
      OR push_bit 48 (ucast (ucast (drop_bit 48 v) :: byte)) OR push_bit 56 (ucast (ucast (drop_bit 56 v) :: byte))"
    by (simp add: PutUint64_def)
  show "bit (Uint64 (PutUint64 v @ r)) n = bit v n"
    unfolding e bit_or_iff byte_slice_bit using n by auto
qed

subsection \<open>Packing at the end of the buffer\<close>

lemma Errored_writer [simp]: "\<not> Errored (writer m bs)"
  by (simp add: writer_def)

lemma Bytes_writer [simp]: "Bytes (writer m bs) = bs"
  by (simp add: writer_def)

lemma append_fits:
  "length bs + length e \<le> m \<Longrightarrow>
     (let p1 = Expand (length e) (writer m bs) in if Errored p1 then p1 else writeAt e p1)
       = writer m (bs @ e)"
  by (cases "e = []") (auto simp: Expand_def writer_def writeAt_def Let_def)

lemma append_overflows:
  "length bs \<le> m \<Longrightarrow> m < length bs + length e \<Longrightarrow>
     (let p1 = Expand (length e) (writer m bs) in if Errored p1 then p1 else writeAt e p1)
       = (writer m bs)\<lparr>Errored := True\<rparr>"
  by (auto simp: Expand_def writer_def writeAt_def Let_def)

lemma PackShort_fits: "length bs + 2 \<le> m \<Longrightarrow> PackShort v (writer m bs) = writer m (bs @ PutUint16 v)"
  using append_fits [of bs "PutUint16 v" m] by (simp add: PackShort_def)

lemma PackShort_overflows:
  "length bs \<le> m \<Longrightarrow> m < length bs + 2 \<Longrightarrow> Errored (PackShort v (writer m bs))"
  using append_overflows [of bs m "PutUint16 v"] by (simp add: PackShort_def)

lemma PackLong_fits: "length bs + 8 \<le> m \<Longrightarrow> PackLong v (writer m bs) = writer m (bs @ PutUint64 v)"
  using append_fits [of bs "PutUint64 v" m] by (simp add: PackLong_def)

lemma PackLong_overflows:
  "length bs \<le> m \<Longrightarrow> m < length bs + 8 \<Longrightarrow> Errored (PackLong v (writer m bs))"
  using append_overflows [of bs m "PutUint64 v"] by (simp add: PackLong_def)

lemma PackInt_fits: "length bs + 4 \<le> m \<Longrightarrow> PackInt v (writer m bs) = writer m (bs @ PutUint32 v)"
  using append_fits [of bs "PutUint32 v" m] by (simp add: PackInt_def)

lemma PackInt_overflows:
  "length bs \<le> m \<Longrightarrow> m < length bs + 4 \<Longrightarrow>
     PackInt v (writer m bs) = (writer m bs)\<lparr>Errored := True\<rparr>"
  using append_overflows [of bs m "PutUint32 v"] by (simp add: PackInt_def)

lemma PackFixedBytes_fits:
  "length bs + length e \<le> m \<Longrightarrow> PackFixedBytes e (writer m bs) = writer m (bs @ e)"
  using append_fits [of bs e m] by (simp add: PackFixedBytes_def)

lemma PackFixedBytes_overflows:
  "length bs \<le> m \<Longrightarrow> m < length bs + length e \<Longrightarrow> Errored (PackFixedBytes e (writer m bs))"
  using append_overflows [of bs m e] by (simp add: PackFixedBytes_def)

lemma PackFixedBytes_keeps_error: "Errored p \<Longrightarrow> Errored (PackFixedBytes e p)"
  by (simp add: PackFixedBytes_def Expand_def Let_def)

lemma PackBytes_fits:
  "length bs + 4 + length e \<le> m \<Longrightarrow>
     PackBytes e (writer m bs) = writer m (bs @ PutUint32 (of_nat (length e)) @ e)"
  by (simp add: PackBytes_def PackInt_fits PackFixedBytes_fits)

lemma PackBytes_overflows:
  assumes "length bs \<le> m" and "m < length bs + 4 + length e"
  shows "Errored (PackBytes e (writer m bs))"
proof (cases "length bs + 4 \<le> m")
  case True
  with assms show ?thesis
    by (simp add: PackBytes_def PackInt_fits PackFixedBytes_overflows)
next
  case False
  with assms(1) show ?thesis
    by (simp add: PackBytes_def PackInt_overflows PackFixedBytes_keeps_error)
qed

lemma marshal_chain:
  fixes mPb :: marshallingProposerBLock
  defines "h \<equiv> mHeader mPb"
  defines "b1 \<equiv> PutUint16 (version h)"
  defines "b2 \<equiv> b1 @ PutUint32 32 @ Rep_id32 (prntID h)"
  defines "b3 \<equiv> b2 @ PutUint64 (timestamp h)"
  defines "b4 \<equiv> b3 @ PutUint64 (pChainHeight h)"
  defines "b5 \<equiv> b4 @ PutUint32 (of_nat (length (Raw (valCert h)))) @ Raw (valCert h)"
  defines "b6 \<equiv> b5 @ PutUint32 (of_nat (length (signature h))) @ signature h"
  defines "p4 \<equiv> writer (2 ^ 18) b4"
  defines "p5 \<equiv> PackBytes (Raw (valCert h)) p4"
  defines "p6 \<equiv> PackBytes (signature h) p5"
  defines "p7 \<equiv> PackBytes (wrpdBytes mPb) p6"
  shows "marshal mPb =
           (if Errored p5 \<or> Errored p6 \<or> Errored p7 then Inl ErrProBlkFailedParsing
            else Inr (Bytes p7))"
    and "length b4 = 54"
proof -
  have w: "\<lparr>Errored = False, MaxSize = 2 ^ 18, Bytes = [], Offset = 0\<rparr> = writer (2 ^ 18) []"
    by (simp add: writer_def)
  have l: "length (Rep_id32 (prntID h)) = 32"
    using Rep_id32 [of "prntID h"] by simp
  have l32: "(of_nat (length (Rep_id32 (prntID h))) :: 32 word) = 32"
    by (simp add: l)
  show l4: "length b4 = 54"
    by (simp add: b4_def b3_def b2_def b1_def l)
  have q1: "PackShort (version h) (writer (2 ^ 18) []) = writer (2 ^ 18) b1"
    using PackShort_fits [of "[]" "2 ^ 18"] by (simp add: b1_def)
  have q2: "PackBytes (Rep_id32 (prntID h)) (writer (2 ^ 18) b1) = writer (2 ^ 18) b2"
    using PackBytes_fits [of b1 "Rep_id32 (prntID h)" "2 ^ 18"]
    by (simp add: b2_def b1_def l l32)
  have q3: "PackLong (timestamp h) (writer (2 ^ 18) b2) = writer (2 ^ 18) b3"
    using PackLong_fits [of b2 "2 ^ 18"] by (simp add: b3_def b2_def b1_def l)
  have q4: "PackLong (pChainHeight h) (writer (2 ^ 18) b3) = p4"
    using PackLong_fits [of b3 "2 ^ 18"] by (simp add: p4_def b4_def b3_def b2_def b1_def l)
  show "marshal mPb =
           (if Errored p5 \<or> Errored p6 \<or> Errored p7 then Inl ErrProBlkFailedParsing
            else Inr (Bytes p7))"
    unfolding marshal_def w Let_def h_def [symmetric] q1 q2 q3 q4 PackX509Certificate_def
      p5_def [symmetric] p6_def [symmetric] p7_def [symmetric]
    by (simp add: p4_def)
qed

lemma marshal_fits:
  assumes "envelopeSize mPb \<le> 2 ^ 18"
  shows "marshal mPb = Inr (envelope mPb)"
proof -
  let ?h = "mHeader mPb"
  let ?b4 = "PutUint16 (version ?h) @ PutUint32 32 @ Rep_id32 (prntID ?h) @
             PutUint64 (timestamp ?h) @ PutUint64 (pChainHeight ?h)"
  let ?b5 = "?b4 @ PutUint32 (of_nat (length (Raw (valCert ?h)))) @ Raw (valCert ?h)"
  let ?b6 = "?b5 @ PutUint32 (of_nat (length (signature ?h))) @ signature ?h"
  let ?b7 = "?b6 @ PutUint32 (of_nat (length (wrpdBytes mPb))) @ wrpdBytes mPb"
  have l4: "length ?b4 = 54"
    using marshal_chain(2) [of mPb] by simp
  have q5: "PackBytes (Raw (valCert ?h)) (writer (2 ^ 18) ?b4) = writer (2 ^ 18) ?b5"
    using assms l4 by (intro PackBytes_fits) (simp add: envelopeSize_def)
  have q6: "PackBytes (signature ?h) (writer (2 ^ 18) ?b5) = writer (2 ^ 18) ?b6"
    using assms l4 by (intro PackBytes_fits) (simp add: envelopeSize_def)
  have q7: "PackBytes (wrpdBytes mPb) (writer (2 ^ 18) ?b6) = writer (2 ^ 18) ?b7"
    using assms l4 by (intro PackBytes_fits) (simp add: envelopeSize_def)
  show ?thesis
    using marshal_chain(1) [of mPb] q5 q6 q7 by (simp add: envelope_def)
qed

lemma marshal_overflows:
  assumes "2 ^ 18 < envelopeSize mPb"
  shows "marshal mPb = Inl ErrProBlkFailedParsing"
proof -
  let ?h = "mHeader mPb"
  let ?b4 = "PutUint16 (version ?h) @ PutUint32 32 @ Rep_id32 (prntID ?h) @
             PutUint64 (timestamp ?h) @ PutUint64 (pChainHeight ?h)"
  let ?b5 = "?b4 @ PutUint32 (of_nat (length (Raw (valCert ?h)))) @ Raw (valCert ?h)"
  let ?b6 = "?b5 @ PutUint32 (of_nat (length (signature ?h))) @ signature ?h"
  have l4: "length ?b4 = 54"
    using marshal_chain(2) [of mPb] by simp
  note ch = marshal_chain(1) [of mPb]
  show ?thesis
  proof (cases "length ?b4 + 4 + length (Raw (valCert ?h)) \<le> 2 ^ 18")
    case False
    with l4 have "Errored (PackBytes (Raw (valCert ?h)) (writer (2 ^ 18) ?b4))"
      by (intro PackBytes_overflows) simp_all
    then show ?thesis
      using ch by simp
  next
    case c5: True
    then have q5: "PackBytes (Raw (valCert ?h)) (writer (2 ^ 18) ?b4) = writer (2 ^ 18) ?b5"
      by (intro PackBytes_fits) simp
    show ?thesis
    proof (cases "length ?b5 + 4 + length (signature ?h) \<le> 2 ^ 18")
      case False
      with c5 have "Errored (PackBytes (signature ?h) (writer (2 ^ 18) ?b5))"
        by (intro PackBytes_overflows) simp_all
      then show ?thesis
        using ch q5 by simp
    next
      case c6: True
      then have q6: "PackBytes (signature ?h) (writer (2 ^ 18) ?b5) = writer (2 ^ 18) ?b6"
        by (intro PackBytes_fits) simp
      have "2 ^ 18 < length ?b6 + 4 + length (wrpdBytes mPb)"
        using assms l4 by (simp add: envelopeSize_def)
      with c6 have "Errored (PackBytes (wrpdBytes mPb) (writer (2 ^ 18) ?b6))"
        by (intro PackBytes_overflows) simp_all
      then show ?thesis
        using ch q5 q6 by simp
    qed
  qed
qed

lemma Errored_reader [simp]: "\<not> Errored (reader B off)"
  by (simp add: reader_def)

lemma CheckSpace_reader: "off + n \<le> length B \<Longrightarrow> CheckSpace n (reader B off) = reader B off"
  by (auto simp: CheckSpace_def reader_def)

lemma drop_eq_append_bound:
  assumes "drop off B = e @ rest" and "e \<noteq> []"
  shows "off + length e \<le> length B"
proof -
  have "length (drop off B) = length e + length rest"
    using assms(1) by simp
  with assms(2) show ?thesis
    by (cases "off \<le> length B") auto
qed

lemma drop_step:
  assumes "drop off B = e @ rest" and "off + length e = off'"
  shows "drop off' B = rest"
proof -
  have "drop (off + length e) B = drop (length e) (drop off B)"
    by (simp add: add.commute)
  then show ?thesis
    using assms by simp
qed

lemma Put_nonempty [simp]: "PutUint16 a \<noteq> []" "PutUint32 b \<noteq> []" "PutUint64 c \<noteq> []"
  by (simp_all add: PutUint16_def PutUint32_def PutUint64_def)

lemma UnpackShort_reader:
  assumes "drop off B = PutUint16 v @ rest" and "off + 2 = off'"
  shows "UnpackShort (reader B off) = (v, reader B off')"
proof -
  have "off + 2 \<le> length B"
    using drop_eq_append_bound [OF assms(1)] by simp
  then show ?thesis
    using assms
    by (simp add: UnpackShort_def CheckSpace_reader Let_def) (auto simp: reader_def Uint16_Put)
qed

lemma UnpackInt_reader:
  assumes "drop off B = PutUint32 v @ rest" and "off + 4 = off'"
  shows "UnpackInt (reader B off) = (v, reader B off')"
proof -
  have "off + 4 \<le> length B"
    using drop_eq_append_bound [OF assms(1)] by simp
  then show ?thesis
    using assms
    by (simp add: UnpackInt_def CheckSpace_reader Let_def) (auto simp: reader_def Uint32_Put)
qed

lemma UnpackLong_reader:
  assumes "drop off B = PutUint64 v @ rest" and "off + 8 = off'"
  shows "UnpackLong (reader B off) = (v, reader B off')"
proof -
  have "off + 8 \<le> length B"
    using drop_eq_append_bound [OF assms(1)] by simp
  then show ?thesis
    using assms
    by (simp add: UnpackLong_def CheckSpace_reader Let_def) (auto simp: reader_def Uint64_Put)
qed

lemma UnpackFixedBytes_reader:
  assumes "drop off B = e @ rest" and "off \<le> length B" and "off + length e = off'"
  shows "UnpackFixedBytes (length e) (reader B off) = (e, reader B off')"
proof -
  have "off + length e \<le> length B"
  proof (cases "e = []")
    case True
    with assms(2) show ?thesis by simp
  next
    case False
    then show ?thesis by (rule drop_eq_append_bound [OF assms(1)])
  qed
  then show ?thesis
    using assms(1,3)
    by (simp add: UnpackFixedBytes_def CheckSpace_reader Let_def) (auto simp: reader_def)
qed

lemma unat_length32: "n < 2 ^ 32 \<Longrightarrow> unat (of_nat n :: 32 word) = n"
  by (rule of_nat_inverse [OF refl]) simp

lemma UnpackBytes_reader:
  assumes "drop off B = PutUint32 (of_nat (length e)) @ e @ rest" and "length e < 2 ^ 32"
    and "off + 4 + length e = off'"
  shows "UnpackBytes (reader B off) = (e, reader B off')"
proof -
  have d: "drop (off + 4) B = e @ rest"
    by (rule drop_step [OF assms(1)]) simp
  have b: "off + 4 \<le> length B"
    using drop_eq_append_bound [OF assms(1)] by simp
  have i: "UnpackInt (reader B off) = (of_nat (length e), reader B (off + 4))"
    by (rule UnpackInt_reader [OF assms(1)]) simp
  show ?thesis
    unfolding UnpackBytes_def i prod.case unat_length32 [OF assms(2)]
    by (rule UnpackFixedBytes_reader [OF d b assms(3)])
qed

lemma UnpackX509Certificate_reader:
  assumes "drop off B = PutUint32 (of_nat (length (Raw c))) @ Raw c @ rest"
    and "length (Raw c) < 2 ^ 32" and "off + 4 + length (Raw c) = off'"
    and "wellFormedCert parse c"
  shows "UnpackX509Certificate parse (reader B off) =
           ((if Raw c = [] then None else Some c), reader B off')"
  using assms(4)
  by (simp add: UnpackX509Certificate_def UnpackBytes_reader [OF assms(1,2,3)] wellFormedCert_def)

lemma unmarshal_envelope:
  assumes wf: "wellFormedCert parse (valCert (mHeader x))"
    and sz: "envelopeSize x \<le> 2 ^ 18"
  shows "unmarshal parse m0 (envelope x) = (None, x)"
proof -
  define B where "B = envelope x"
  define h where "h = mHeader x"
  define raw where "raw = Raw (valCert h)"
  define sg where "sg = signature h"
  define wb where "wb = wrpdBytes x"
  define R7 where "R7 = PutUint32 (of_nat (length wb)) @ wb"
  define R6 where "R6 = PutUint32 (of_nat (length sg)) @ sg @ R7"
  define R5 where "R5 = PutUint32 (of_nat (length raw)) @ raw @ R6"
  define R4 where "R4 = PutUint64 (pChainHeight h) @ R5"
  define R3 where "R3 = PutUint64 (timestamp h) @ R4"
  define R2 where "R2 = PutUint32 (of_nat (length (Rep_id32 (prntID h)))) @ Rep_id32 (prntID h) @ R3"
  define o5 where "o5 = 54 + 4 + length raw"
  define o6 where "o6 = o5 + 4 + length sg"
  define o7 where "o7 = o6 + 4 + length wb"
  have l: "length (Rep_id32 (prntID h)) = 32"
    using Rep_id32 [of "prntID h"] by simp
  have small: "length raw < 2 ^ 32" "length sg < 2 ^ 32" "length wb < 2 ^ 32" 
    using sz by (simp_all add: envelopeSize_def raw_def sg_def wb_def h_def)
  have d0: "drop 0 B = PutUint16 (version h) @ R2"
    by (simp add: B_def envelope_def R2_def R3_def R4_def R5_def R6_def R7_def h_def raw_def
        sg_def wb_def l [unfolded h_def])
  have d1: "drop 2 B = R2"
    by (rule drop_step [OF d0]) simp
  have d2: "drop 38 B = R3"
    by (rule drop_step [OF d1 [unfolded R2_def, folded append_assoc]]) (simp add: l)
  have d3: "drop 46 B = R4"
    by (rule drop_step [OF d2 [unfolded R3_def]]) simp
  have d4: "drop 54 B = R5"
    by (rule drop_step [OF d3 [unfolded R4_def]]) simp
  have d5: "drop o5 B = R6"
    by (rule drop_step [OF d4 [unfolded R5_def, folded append_assoc]]) (simp add: o5_def)
  have d6: "drop o6 B = R7"
    by (rule drop_step [OF d5 [unfolded R6_def, folded append_assoc]]) (simp add: o6_def)
  have d7: "drop o6 B = PutUint32 (of_nat (length wb)) @ wb @ []"
    using d6 by (simp add: R7_def)
  have r0: "\<lparr>Errored = False, MaxSize = 0, Bytes = envelope x, Offset = 0\<rparr> = reader B 0"
    by (simp add: reader_def B_def)
  have u1: "UnpackShort (reader B 0) = (version h, reader B 2)"
    by (rule UnpackShort_reader [OF d0]) simp
  have u2: "UnpackBytes (reader B 2) = (Rep_id32 (prntID h), reader B 38)"
    by (rule UnpackBytes_reader [OF d1 [unfolded R2_def]]) (simp_all add: l)
  have u3: "UnpackLong (reader B 38) = (timestamp h, reader B 46)"
    by (rule UnpackLong_reader [OF d2 [unfolded R3_def]]) simp
  have u4: "UnpackLong (reader B 46) = (pChainHeight h, reader B 54)"
    by (rule UnpackLong_reader [OF d3 [unfolded R4_def]]) simp
  have wf': "wellFormedCert parse (valCert h)"
    using wf by (simp add: h_def)
  have u5: "UnpackX509Certificate parse (reader B 54) =
              ((if Raw (valCert h) = [] then None else Some (valCert h)), reader B o5)"
    by (rule UnpackX509Certificate_reader [OF d4 [unfolded R5_def raw_def] _ _ wf'])
       (use small(1) in \<open>simp_all add: o5_def raw_def\<close>)
  have u6: "UnpackBytes (reader B o5) = (sg, reader B o6)"
    by (rule UnpackBytes_reader [OF d5 [unfolded R6_def] small(2)]) (simp add: o6_def)
  have u7: "UnpackBytes (reader B o6) = (wb, reader B o7)"
    by (rule UnpackBytes_reader [OF d7 small(3)]) (simp add: o7_def)
  have c: "(case (if Raw (valCert h) = [] then None else Some (valCert h)) of
              Some c \<Rightarrow> c | None \<Rightarrow> emptyCertificate) = valCert h"
    using wf' by (auto simp: wellFormedCert_def)
  show ?thesis
    unfolding unmarshal_def r0
    by (simp add: u1 u2 u3 u4 u5 u6 u7 c l Let_def Rep_id32_inverse h_def [symmetric])
       (simp add: h_def sg_def wb_def)
qed

lemma marshal_Inl_oversize: "marshal mPb = Inl e \<Longrightarrow> 2 ^ 18 < envelopeSize mPb"
  using marshal_fits [of mPb] by (cases "envelopeSize mPb \<le> 2 ^ 18") auto

lemma getBytes_eq:
  "getBytes pb =
     (if envelopeSize \<lparr>mHeader = header pb, wrpdBytes = coreBytes (coreBlk pb)\<rparr> \<le> 2 ^ 18
      then envelope \<lparr>mHeader = header pb, wrpdBytes = coreBytes (coreBlk pb)\<rparr> else [])"
  using marshal_fits [of "\<lparr>mHeader = header pb, wrpdBytes = coreBytes (coreBlk pb)\<rparr>"]
    marshal_overflows [of "\<lparr>mHeader = header pb, wrpdBytes = coreBytes (coreBlk pb)\<rparr>"]
  by (auto simp: getBytes_def not_le)

section \<open>Facts about times\<close>












section \<open>Facts about the checks of a block\<close>

lemmas time_defs = time_Unix_def time_Add_def time_Before_def time_After_def addSec_def
  go_quo_def go_rem_def unixToInternal_def BlkSubmissionTolerance_def

lemma example_times:
  "vm_now exampleVM = time_Unix 1010"
  "BlkSubmissionDelay exampleVM h n = 5 * 1000000000"
  "addSecOverflow stubCrypto = (\<lambda>s d. s + d)"
  "addSecOverflow (pickyCrypto msg) = (\<lambda>s d. s + d)"
  by (simp_all add: exampleVM_def stubCrypto_def pickyCrypto_def)

lemma Verify_past_heights:
  assumes "version (header pb) = proBlkVersion"
    and "coreVerify (coreBlk pb) = None"
    and "getProBlock cr vm is (prntID (header pb)) = (Inr prntBlk, is1)"
    and "pChainHeight (header prntBlk) \<le> pChainHeight (header pb)"
    and "pChainHeight (header pb) \<le> vm_pChainHeight vm"
    and "ToShortID (PubkeyBytesToAddress cr (Raw (valCert (header pb)))) = Inr nodeID"
  shows "fst (Verify cr vm is pb) =
           (if sint (timestamp (header pb)) < sint (timestamp (header prntBlk))
            then Some ErrProBlkBadTimestamp
            else if time_Before (time_Unix (timestamp (header pb)))
                      (time_Add (addSecOverflow cr) (time_Unix (timestamp (header prntBlk)))
                         (BlkSubmissionDelay vm (pChainHeight (header pb)) nodeID))
            then Some ErrProBlkBadTimestamp
            else if time_After (time_Unix (timestamp (header pb)))
                      (time_Add (addSecOverflow cr) (vm_now vm) BlkSubmissionTolerance)
            then Some ErrProBlkBadTimestamp
            else fst (verifySignature cr pb))"
  using assms
  by (auto simp: Verify_def Let_def not_less split: sum.splits prod.splits)

lemma child_facts:
  "version (header (childBlk 0 ts h acc)) = proBlkVersion"
  "coreVerify (coreBlk (childBlk 0 ts h acc)) = None"
  "pChainHeight (header (childBlk v ts h acc)) = h"
  "timestamp (header (childBlk v ts h acc)) = ts"
  "pChainHeight (header parentBlk) = 7"
  "timestamp (header parentBlk) = 1000"
  "vm_pChainHeight exampleVM = 10"
  by (simp_all add: example_defs)

lemma getBytes_cleared:
  "getBytes (pb\<lparr>header := (header pb)\<lparr>signature := []\<rparr>, bytes := b\<rparr>)
     = signedMessage (header pb) (coreBytes (coreBlk pb))"
  by (simp add: getBytes_eq signedMessage_def)

lemma getBytes_cleared':
  "getBytes (pb\<lparr>header := (header pb)\<lparr>signature := []\<rparr>\<rparr>)
     = signedMessage (header pb) (coreBytes (coreBlk pb))"
  by (simp add: getBytes_eq signedMessage_def)

lemma verifySignature_result:
  "fst (verifySignature cr pb) =
     (if CheckSignature cr (valCert (header pb)) (SignatureAlgorithm (valCert (header pb)))
           (signedMessage (header pb) (coreBytes (coreBlk pb))) (signature (header pb))
      then None else Some ErrInvalidSignature)"
  by (simp add: verifySignature_def Let_def getBytes_cleared)

lemma picky_facts:
  "getProBlock (pickyCrypto msg) exampleVM (cacheProBlk parentBlk newState) (copyID [2])
     = (Inr parentBlk, cacheProBlk parentBlk newState)"
  "ToShortID (PubkeyBytesToAddress (pickyCrypto msg) []) = Inr (Abs_id20 (replicate 20 0))"
  "CheckSignature (pickyCrypto msg) c a m sg = (m = msg)"
  "ComputeHash256Array stubCrypto = copyID"
  by (simp_all add: pickyCrypto_def example_defs ToShortID_def)

lemma oversizeChild_facts:
  "version (header oversizeChild) = proBlkVersion"
  "coreVerify (coreBlk oversizeChild) = None"
  "prntID (header oversizeChild) = copyID [2]"
  "pChainHeight (header oversizeChild) = 7"
  "timestamp (header oversizeChild) = 1005"
  "Raw (valCert (header oversizeChild)) = []"
  "signature (header oversizeChild) = []"
  "coreBytes (coreBlk oversizeChild) = replicate (2 ^ 18) 0"
  by (simp_all add: oversizeChild_def example_defs)

lemma child_facts2:
  "prntID (header (childBlk v ts h acc)) = copyID [2]"
  "Raw (valCert (header (childBlk v ts h acc))) = []"
  "signature (header (childBlk v ts h acc)) = []"
  "coreBytes (coreBlk (childBlk v ts h acc)) = []"
  by (simp_all add: example_defs)

lemma signedMessage_child:
  "signedMessage (header (childBlk v ts h acc)) [] = envelope \<lparr>mHeader = header (childBlk v ts h acc), wrpdBytes = []\<rparr>"
  "envelope \<lparr>mHeader = header (childBlk v ts h acc), wrpdBytes = []\<rparr> \<noteq> []"
  by (simp_all add: signedMessage_def envelopeSize_def envelope_def example_defs PutUint16_def)

lemma signedMessage_oversizeChild:
  "signedMessage (header oversizeChild) (coreBytes (coreBlk oversizeChild)) = []"
  "envelope \<lparr>mHeader = (header oversizeChild)\<lparr>signature := []\<rparr>,
             wrpdBytes = coreBytes (coreBlk oversizeChild)\<rparr> \<noteq> []"
  by (simp_all add: signedMessage_def envelopeSize_def envelope_def PutUint16_def
      oversizeChild_facts(8))

section \<open>Verification of a block\<close>

text \<open>
  C3, as the code has it. A block whose header version is not 0 is refused by \<^verbatim>\<open>Verify\<close>
  before anything else is looked at: whatever the inner block, the state, the clock and the
  certificate are, the result is the error built by
  \<^verbatim>\<open>fmt.Errorf("codecVersion not matching")\<close>, and state and block are left as they were.
  That error is not the sentinel \<open>ErrProBlkFailedParsing\<close>.
\<close>

theorem Verify_version_mismatch:
  "version (header pb) \<noteq> proBlkVersion \<Longrightarrow>
     Verify cr vm is pb = (Some (Errorf ''codecVersion not matching''), is, pb)"
  by (simp add: Verify_def)

theorem Verify_version_mismatch_witness:
  "version (header (childBlk 1 1005 7 None)) \<noteq> proBlkVersion \<and>
   Verify stubCrypto exampleVM (cacheProBlk parentBlk newState) (childBlk 1 1005 7 None) =
     (Some (Errorf ''codecVersion not matching''), cacheProBlk parentBlk newState,
      childBlk 1 1005 7 None)"
proof -
  have v: "version (header (childBlk 1 1005 7 None)) \<noteq> proBlkVersion"
    by (simp add: example_defs)
  from Verify_version_mismatch [OF v] v show ?thesis by simp
qed

text \<open>
  C3 as stated fails: the block of scenario 2 (version \<open>0x0001\<close>) is refused, but not with
  \<open>ErrProBlkFailedParsing\<close>.
\<close>

theorem Verify_version_counterexample:
  "version (header (childBlk 1 1005 7 None)) \<noteq> 0 \<and>
   fst (Verify stubCrypto exampleVM (cacheProBlk parentBlk newState) (childBlk 1 1005 7 None))
     \<noteq> Some ErrProBlkFailedParsing"
  by (simp add: Verify_def example_defs)

text \<open>
  C7. For a block that passes the version check, the inner block's verification and the
  parent lookup, \<^verbatim>\<open>Verify\<close> fails with \<open>ErrProBlkWrongHeight\<close> exactly when its P-chain
  height is strictly below the parent's or strictly above the VM's current height (both
  compared as unsigned 64-bit numbers); at either bound the height is admitted.
\<close>

theorem Verify_height:
  assumes "version (header pb) = proBlkVersion"
    and "coreVerify (coreBlk pb) = None"
    and "getProBlock cr vm is (prntID (header pb)) = (Inr prntBlk, is1)"
  shows "fst (Verify cr vm is pb) = Some ErrProBlkWrongHeight \<longleftrightarrow>
           pChainHeight (header pb) < pChainHeight (header prntBlk) \<or>
           pChainHeight (header pb) > vm_pChainHeight vm"
  using assms verifySignature_err [of cr pb]
  by (auto simp: Verify_def Let_def split: sum.splits prod.splits)

text \<open>
  The parent has height 7 and the VM is at height 10: height 6 is refused (scenario 6), 7 and
  10 are admitted, 11 is refused.
\<close>

theorem Verify_height_witness:
  "fst (Verify stubCrypto exampleVM (cacheProBlk parentBlk newState) (childBlk 0 1005 6 None))
     = Some ErrProBlkWrongHeight \<and>
   fst (Verify stubCrypto exampleVM (cacheProBlk parentBlk newState) (childBlk 0 1005 7 None))
     \<noteq> Some ErrProBlkWrongHeight \<and>
   fst (Verify stubCrypto exampleVM (cacheProBlk parentBlk newState) (childBlk 0 1005 10 None))
     \<noteq> Some ErrProBlkWrongHeight \<and>
   fst (Verify stubCrypto exampleVM (cacheProBlk parentBlk newState) (childBlk 0 1005 11 None))
     = Some ErrProBlkWrongHeight"
proof -
  have a: "version (header (childBlk 0 ts h None)) = proBlkVersion" for ts h
    by (simp add: example_defs)
  have b: "coreVerify (coreBlk (childBlk 0 ts h None)) = None" for ts h
    by (simp add: example_defs)
  note t = Verify_height [OF a b getProBlock_example]
  show ?thesis
    by (simp add: t) (simp add: example_defs)
qed




text \<open>
  C9. Whatever \<^verbatim>\<open>Verify\<close> returns, the block's signature and the contents of its bytes are
  after the call what they were before it; the header, the inner block and the id are
  untouched as well.
\<close>

theorem Verify_restores:
  "signature (header (snd (snd (Verify cr vm is pb)))) = signature (header pb) \<and>
   sliceBytes (bytes (snd (snd (Verify cr vm is pb)))) = sliceBytes (bytes pb) \<and>
   header (snd (snd (Verify cr vm is pb))) = header pb \<and>
   coreBlk (snd (snd (Verify cr vm is pb))) = coreBlk pb \<and>
   id_pb (snd (snd (Verify cr vm is pb))) = id_pb pb"
  using verifySignature_frame [of cr pb]
  by (auto simp: Verify_def Let_def sliceBytes_def split: sum.splits prod.splits option.splits)

section \<open>The codec\<close>

text \<open>
  C6. A header with inner bytes is well formed when its certificate is well formed for the
  X.509 parser and its envelope fits the maximum size. For every such pair, \<^verbatim>\<open>marshal\<close>
  succeeds with the envelope of the specification, \<^verbatim>\<open>unmarshal\<close> of that envelope
  succeeds and leaves the pair in its receiver (whatever the receiver held before), and
  marshalling what was read gives the same bytes again.
\<close>

theorem marshal_unmarshal_roundtrip:
  assumes "wellFormedCert parse (valCert (mHeader x))" and "envelopeSize x \<le> 2 ^ 18"
  shows "marshal x = Inr (envelope x) \<and>
         unmarshal parse m0 (envelope x) = (None, x) \<and>
         marshal (snd (unmarshal parse m0 (envelope x))) = Inr (envelope x)"
  using marshal_fits [OF assms(2)] unmarshal_envelope [OF assms, of m0] by simp

text \<open>
  The genesis case of scenario 1: version 0, zero parent id, timestamp 0, height 0, empty
  certificate, signature and inner bytes. Its envelope is the 66 bytes of the scenario.
\<close>

theorem marshal_unmarshal_roundtrip_witness:
  "wellFormedCert (\<lambda>b. None) (valCert (mHeader zeroMarshallingProposerBLock)) \<and>
   envelopeSize zeroMarshallingProposerBLock \<le> 2 ^ 18 \<and>
   envelope zeroMarshallingProposerBLock =
     [0, 0] @ [0, 0, 0, 32] @ replicate 32 0 @ [0, 0, 0, 0, 0, 0, 0, 0] @
     [0, 0, 0, 0, 0, 0, 0, 0] @ [0, 0, 0, 0] @ [0, 0, 0, 0] @ [0, 0, 0, 0] \<and>
   marshal zeroMarshallingProposerBLock = Inr (envelope zeroMarshallingProposerBLock) \<and>
   unmarshal (\<lambda>b. None) (\<lparr>mHeader = header parentBlk, wrpdBytes = [7]\<rparr>)
       (envelope zeroMarshallingProposerBLock) = (None, zeroMarshallingProposerBLock) \<and>
   marshal (snd (unmarshal (\<lambda>b. None) (\<lparr>mHeader = header parentBlk, wrpdBytes = [7]\<rparr>)
       (envelope zeroMarshallingProposerBLock))) = Inr (envelope zeroMarshallingProposerBLock)"
proof -
  have a: "wellFormedCert (\<lambda>b. None) (valCert (mHeader zeroMarshallingProposerBLock))"
    by (simp add: wellFormedCert_def zeroMarshallingProposerBLock_def emptyCertificate_def)
  have b: "envelopeSize zeroMarshallingProposerBLock \<le> 2 ^ 18"
    by (simp add: envelopeSize_def zeroMarshallingProposerBLock_def emptyCertificate_def)
  have c: "envelope zeroMarshallingProposerBLock =
     [0, 0] @ [0, 0, 0, 32] @ replicate 32 0 @ [0, 0, 0, 0, 0, 0, 0, 0] @
     [0, 0, 0, 0, 0, 0, 0, 0] @ [0, 0, 0, 0] @ [0, 0, 0, 0] @ [0, 0, 0, 0]"
    by (simp add: envelope_def zeroMarshallingProposerBLock_def emptyCertificate_def
        PutUint16_def PutUint32_def PutUint64_def zeroID.rep_eq)
  from marshal_unmarshal_roundtrip [OF a b] a b c show ?thesis
    by blast
qed

text \<open>
  C10. When \<^verbatim>\<open>marshal\<close> fails on a block's header and inner bytes, \<^verbatim>\<open>getBytes\<close>
  returns the empty byte string, and so does \<^verbatim>\<open>Bytes\<close> when it has to compute the bytes
  (it stores the empty string in the block); \<^verbatim>\<open>NewProBlock\<close> called with nil bytes
  succeeds with the id of the empty string. When \<^verbatim>\<open>marshal\<close> fails on the header with
  the signature cleared, \<^verbatim>\<open>sign\<close> hands the hash of the empty string to the signing key
  and returns what the key returns.
\<close>

theorem marshal_failure_empty_bytes:
  "(marshal \<lparr>mHeader = header pb, wrpdBytes = coreBytes (coreBlk pb)\<rparr> = Inl e \<longrightarrow>
      getBytes pb = [] \<and>
      Bytes_pb (pb\<lparr>bytes := None\<rparr>) = ([], pb\<lparr>bytes := Some []\<rparr>) \<and>
      NewProBlock cr vm (header pb) (coreBlk pb) None False =
        Inr \<lparr>header = header pb, coreBlk = coreBlk pb, id_pb = ComputeHash256Array cr [],
             bytes = Some []\<rparr>) \<and>
   (marshal \<lparr>mHeader = (header pb)\<lparr>signature := []\<rparr>, wrpdBytes = coreBytes (coreBlk pb)\<rparr> = Inl e \<longrightarrow>
      sign cr (vm\<lparr>stakingSigner := Some signKey\<rparr>) pb =
        (case signKey (Rep_id32 (ComputeHash256Array cr [])) of
           Inl err \<Rightarrow> (Some err, pb\<lparr>header := (header pb)\<lparr>signature := []\<rparr>\<rparr>)
         | Inr sig \<Rightarrow> (None, pb\<lparr>header := (header pb)\<lparr>signature := sig\<rparr>\<rparr>)))"
  by (auto simp: getBytes_def Bytes_pb_def NewProBlock_def sign_def Let_def sliceBytes_def
      split: sum.splits)

text \<open>
  The inner bytes of \<open>oversizeBlk\<close> are \<open>2^18\<close> bytes long, so its envelope would have
  \<open>2^18 + 66\<close> bytes and \<^verbatim>\<open>marshal\<close> fails. The hash stand-in maps the empty string
  to the zero id, which the example key returns as the signature.
\<close>

theorem marshal_failure_empty_bytes_witness:
  "marshal \<lparr>mHeader = header oversizeBlk, wrpdBytes = coreBytes (coreBlk oversizeBlk)\<rparr>
     = Inl ErrProBlkFailedParsing \<and>
   getBytes oversizeBlk = [] \<and>
   fst (Bytes_pb oversizeBlk) = [] \<and>
   NewProBlock stubCrypto exampleVM (header oversizeBlk) (coreBlk oversizeBlk) None False =
     Inr \<lparr>header = header oversizeBlk, coreBlk = coreBlk oversizeBlk, id_pb = zeroID,
          bytes = Some []\<rparr> \<and>
   sign stubCrypto exampleVM oversizeBlk =
     (None, oversizeBlk\<lparr>header := (header oversizeBlk)\<lparr>signature := replicate 32 0\<rparr>\<rparr>)"
proof -
  have s: "(header oversizeBlk)\<lparr>signature := []\<rparr> = header oversizeBlk"
    by (simp add: oversizeBlk_def example_defs)
  have m: "marshal \<lparr>mHeader = header oversizeBlk, wrpdBytes = coreBytes (coreBlk oversizeBlk)\<rparr>
     = Inl ErrProBlkFailedParsing"
    by (rule marshal_overflows) (simp add: envelopeSize_def oversizeBlk_def)
  have n: "oversizeBlk\<lparr>bytes := None\<rparr> = oversizeBlk"
    by (simp add: oversizeBlk_def)
  have v: "exampleVM\<lparr>stakingSigner := Some (\<lambda>digest. Inr digest)\<rparr> = exampleVM"
    by (simp add: exampleVM_def)
  have z: "ComputeHash256Array stubCrypto [] = zeroID"
    by (simp add: stubCrypto_def Rep_id32_inject [symmetric] copyID.rep_eq zeroID.rep_eq)
  from marshal_failure_empty_bytes [of oversizeBlk ErrProBlkFailedParsing stubCrypto exampleVM
      "\<lambda>digest. Inr digest"] m
  show ?thesis
    by (simp add: s n v z zeroID.rep_eq)
qed

section \<open>Signing and checking the signature\<close>

text \<open>
  C4, as the code has it. For a block that passes the nine checks before it, the result of
  \<^verbatim>\<open>Verify\<close> is that of \<^verbatim>\<open>CheckSignature\<close> on the message of the block and the stored
  signature; \<^verbatim>\<open>sign\<close> hands to the signing key the hash of the same message. The
  message is the envelope produced with the signature set to empty when that envelope is
  at most \<open>2^18\<close> bytes long, and the empty byte string otherwise; it does not depend on
  the signature the header holds.
\<close>

theorem signed_bytes_agree:
  assumes "version (header pb) = proBlkVersion"
    and "coreVerify (coreBlk pb) = None"
    and "getProBlock cr vm is (prntID (header pb)) = (Inr prntBlk, is1)"
    and "pChainHeight (header prntBlk) \<le> pChainHeight (header pb)"
    and "pChainHeight (header pb) \<le> vm_pChainHeight vm"
    and "ToShortID (PubkeyBytesToAddress cr (Raw (valCert (header pb)))) = Inr nodeID"
    and "sint (timestamp (header prntBlk)) \<le> sint (timestamp (header pb))"
    and "\<not> time_Before (time_Unix (timestamp (header pb)))
              (time_Add (addSecOverflow cr) (time_Unix (timestamp (header prntBlk)))
                 (BlkSubmissionDelay vm (pChainHeight (header pb)) nodeID))"
    and "\<not> time_After (time_Unix (timestamp (header pb)))
              (time_Add (addSecOverflow cr) (vm_now vm) BlkSubmissionTolerance)"
  shows "fst (Verify cr vm is pb) =
           (if CheckSignature cr (valCert (header pb)) (SignatureAlgorithm (valCert (header pb)))
                 (signedMessage (header pb) (coreBytes (coreBlk pb))) (signature (header pb))
            then None else Some ErrInvalidSignature) \<and>
         sign cr (vm\<lparr>stakingSigner := Some signKey\<rparr>) pb =
           (case signKey (Rep_id32 (ComputeHash256Array cr
                           (signedMessage (header pb) (coreBytes (coreBlk pb))))) of
              Inl err \<Rightarrow> (Some err, pb\<lparr>header := (header pb)\<lparr>signature := []\<rparr>\<rparr>)
            | Inr sig \<Rightarrow> (None, pb\<lparr>header := (header pb)\<lparr>signature := sig\<rparr>\<rparr>)) \<and>
         signedMessage ((header pb)\<lparr>signature := s\<rparr>) (coreBytes (coreBlk pb))
           = signedMessage (header pb) (coreBytes (coreBlk pb))"
proof -
  have v: "fst (Verify cr vm is pb) = fst (verifySignature cr pb)"
    unfolding Verify_past_heights [OF assms(1-6)] using assms(7-9) by simp
  have g: "sign cr (vm\<lparr>stakingSigner := Some signKey\<rparr>) pb =
           (case signKey (Rep_id32 (ComputeHash256Array cr
                           (signedMessage (header pb) (coreBytes (coreBlk pb))))) of
              Inl err \<Rightarrow> (Some err, pb\<lparr>header := (header pb)\<lparr>signature := []\<rparr>\<rparr>)
            | Inr sig \<Rightarrow> (None, pb\<lparr>header := (header pb)\<lparr>signature := sig\<rparr>\<rparr>))"
    by (simp add: sign_def Let_def getBytes_cleared' split: sum.splits)
  have i: "signedMessage ((header pb)\<lparr>signature := s\<rparr>) (coreBytes (coreBlk pb))
           = signedMessage (header pb) (coreBytes (coreBlk pb))"
    by (simp add: signedMessage_def)
  from v g i show ?thesis
    by (simp only: verifySignature_result) 
qed

text \<open>
  A block with timestamp 1005 under the parent of timestamp 1000: a \<^verbatim>\<open>CheckSignature\<close>
  that accepts only the envelope with empty signature accepts the block, one that accepts
  only the empty byte string refuses it, and \<^verbatim>\<open>sign\<close> returns the hash stand-in of that
  envelope as the signature.
\<close>

theorem signed_bytes_agree_witness:
  "fst (Verify (pickyCrypto (envelope \<lparr>mHeader = header (childBlk 0 1005 7 None), wrpdBytes = []\<rparr>))
          exampleVM (cacheProBlk parentBlk newState) (childBlk 0 1005 7 None)) = None \<and>
   fst (Verify (pickyCrypto []) exampleVM (cacheProBlk parentBlk newState) (childBlk 0 1005 7 None))
     = Some ErrInvalidSignature \<and>
   sign stubCrypto exampleVM (childBlk 0 1005 7 None) =
     (None, (childBlk 0 1005 7 None)\<lparr>header := (header (childBlk 0 1005 7 None))
        \<lparr>signature := Rep_id32 (copyID (envelope
             \<lparr>mHeader = header (childBlk 0 1005 7 None), wrpdBytes = []\<rparr>))\<rparr>\<rparr>)"
proof -
  let ?c = "childBlk 0 1005 7 None"
  have g: "getProBlock (pickyCrypto msg) exampleVM (cacheProBlk parentBlk newState) (prntID (header ?c))
             = (Inr parentBlk, cacheProBlk parentBlk newState)" for msg
    by (simp add: child_facts2 picky_facts)
  have t: "ToShortID (PubkeyBytesToAddress (pickyCrypto msg) (Raw (valCert (header ?c))))
             = Inr (Abs_id20 (replicate 20 0))" for msg
    by (simp add: child_facts2 picky_facts)
  have h: "pChainHeight (header parentBlk) \<le> pChainHeight (header ?c)"
    "pChainHeight (header ?c) \<le> vm_pChainHeight exampleVM"
    "sint (timestamp (header parentBlk)) \<le> sint (timestamp (header ?c))"
    by (simp_all add: child_facts)
  have b: "\<not> time_Before (time_Unix (timestamp (header ?c)))
              (time_Add (addSecOverflow (pickyCrypto msg)) (time_Unix (timestamp (header parentBlk)))
                 (BlkSubmissionDelay exampleVM (pChainHeight (header ?c)) (Abs_id20 (replicate 20 0))))" for msg
    by (simp add: child_facts example_times time_defs Let_def)
  have a: "\<not> time_After (time_Unix (timestamp (header ?c)))
              (time_Add (addSecOverflow (pickyCrypto msg)) (vm_now exampleVM) BlkSubmissionTolerance)" for msg
    by (simp add: child_facts example_times time_defs Let_def)
  have v: "exampleVM\<lparr>stakingSigner := Some (\<lambda>digest. Inr digest)\<rparr> = exampleVM"
    by (simp add: exampleVM_def)
  note th = signed_bytes_agree [OF child_facts(1,2) g h(1,2) t h(3) b a, where signKey = "\<lambda>digest. Inr digest"]
  have 1: "fst (Verify (pickyCrypto (envelope \<lparr>mHeader = header ?c, wrpdBytes = []\<rparr>))
          exampleVM (cacheProBlk parentBlk newState) ?c) = None"
    using th [of "envelope \<lparr>mHeader = header ?c, wrpdBytes = []\<rparr>"]
    by (simp add: picky_facts child_facts2 signedMessage_child)
  have 2: "fst (Verify (pickyCrypto []) exampleVM (cacheProBlk parentBlk newState) ?c)
     = Some ErrInvalidSignature"
    using th [of "[]"] signedMessage_child(2) [of 0 1005 7 None]
    by (simp add: picky_facts child_facts2 signedMessage_child(1))
  have s0: "sign (pickyCrypto []) exampleVM ?c = sign stubCrypto exampleVM ?c"
    by (simp add: sign_def pickyCrypto_def)
  have 3: "sign stubCrypto exampleVM ?c =
     (None, ?c\<lparr>header := (header ?c)
        \<lparr>signature := Rep_id32 (copyID (envelope \<lparr>mHeader = header ?c, wrpdBytes = []\<rparr>))\<rparr>\<rparr>)"
    using th [of "[]"] s0
    by (simp add: v pickyCrypto_def stubCrypto_def child_facts2 signedMessage_child(1))
  from 1 2 3 show ?thesis by simp
qed

text \<open>
  C4 as stated fails for a block whose envelope exceeds the maximum size: the envelope
  with empty signature is not empty, but a \<^verbatim>\<open>CheckSignature\<close> that accepts only that
  envelope refuses the block, and one that accepts only the empty byte string accepts it.
\<close>

theorem signed_bytes_counterexample:
  "envelope \<lparr>mHeader = (header oversizeChild)\<lparr>signature := []\<rparr>,
             wrpdBytes = coreBytes (coreBlk oversizeChild)\<rparr> \<noteq> [] \<and>
   fst (Verify (pickyCrypto (envelope \<lparr>mHeader = (header oversizeChild)\<lparr>signature := []\<rparr>,
                                      wrpdBytes = coreBytes (coreBlk oversizeChild)\<rparr>))
          exampleVM (cacheProBlk parentBlk newState) oversizeChild) = Some ErrInvalidSignature \<and>
   fst (Verify (pickyCrypto []) exampleVM (cacheProBlk parentBlk newState) oversizeChild) = None"
proof -
  let ?c = oversizeChild
  have g: "getProBlock (pickyCrypto msg) exampleVM (cacheProBlk parentBlk newState) (prntID (header ?c))
             = (Inr parentBlk, cacheProBlk parentBlk newState)" for msg
    by (simp add: oversizeChild_facts picky_facts)
  have t: "ToShortID (PubkeyBytesToAddress (pickyCrypto msg) (Raw (valCert (header ?c))))
             = Inr (Abs_id20 (replicate 20 0))" for msg
    by (simp add: oversizeChild_facts picky_facts)
  have h: "pChainHeight (header parentBlk) \<le> pChainHeight (header ?c)"
    "pChainHeight (header ?c) \<le> vm_pChainHeight exampleVM"
    by (simp_all add: oversizeChild_facts child_facts)
  have r: "fst (Verify (pickyCrypto msg) exampleVM (cacheProBlk parentBlk newState) ?c)
             = (if [] = msg then None else Some ErrInvalidSignature)" for msg
    unfolding Verify_past_heights [OF oversizeChild_facts(1,2) g h t]
    by (simp add: oversizeChild_facts(1-7) child_facts example_times time_defs Let_def
        verifySignature_result picky_facts signedMessage_oversizeChild)
  show ?thesis
    using signedMessage_oversizeChild(2)
    by (auto simp: r)
qed

section \<open>Accepting a block\<close>

text \<open>
  C8. \<^verbatim>\<open>Accept\<close> returns what the inner block's \<^verbatim>\<open>Accept\<close> returns. When that is an
  error the state is unchanged. When it is not, the primary cache has no entry under the
  block's parent id afterwards, the inverse cache has no entry under the inner id of the
  parent that was cached there, every other entry of the primary cache and both databases
  are as before.
\<close>

theorem Accept_cache:
  "fst (Accept is pb) = coreAccept (coreBlk pb) \<and>
   (coreAccept (coreBlk pb) \<noteq> None \<longrightarrow> snd (Accept is pb) = is) \<and>
   (coreAccept (coreBlk pb) = None \<longrightarrow>
      knownProBlocks (snd (Accept is pb)) (prntID (header pb)) = None \<and>
      (\<forall>prnt. knownProBlocks is (prntID (header pb)) = Some prnt \<longrightarrow>
         wrpdToProID (snd (Accept is pb)) (coreID (coreBlk prnt)) = None) \<and>
      (\<forall>k. k \<noteq> prntID (header pb) \<longrightarrow>
         knownProBlocks (snd (Accept is pb)) k = knownProBlocks is k) \<and>
      proBlkDB (snd (Accept is pb)) = proBlkDB is \<and>
      wrpdToProIDDB (snd (Accept is pb)) = wrpdToProIDDB is)"
  by (auto simp: Accept_def Let_def wipeFromCacheProBlk_def split: option.splits)

text \<open>
  With the parent cached: an inner error leaves the state as it is; an inner success
  removes the parent from both caches.
\<close>

theorem Accept_cache_witness:
  "Accept (cacheProBlk parentBlk newState) (childBlk 0 1005 7 (Some (ErrExternal ''inner'')))
     = (Some (ErrExternal ''inner''), cacheProBlk parentBlk newState) \<and>
   knownProBlocks (cacheProBlk parentBlk newState) (copyID [2]) = Some parentBlk \<and>
   wrpdToProID (cacheProBlk parentBlk newState) (copyID [1]) = Some (copyID [2]) \<and>
   fst (Accept (cacheProBlk parentBlk newState) (childBlk 0 1005 7 None)) = None \<and>
   knownProBlocks (snd (Accept (cacheProBlk parentBlk newState) (childBlk 0 1005 7 None)))
     (copyID [2]) = None \<and>
   wrpdToProID (snd (Accept (cacheProBlk parentBlk newState) (childBlk 0 1005 7 None)))
     (copyID [1]) = None"
proof -
  let ?s = "cacheProBlk parentBlk newState"
  have a: "coreAccept (coreBlk (childBlk 0 1005 7 acc)) = acc" for acc
    by (simp add: example_defs)
  have p: "prntID (header (childBlk 0 1005 7 acc)) = copyID [2]" for acc
    by (simp add: example_defs)
  have k: "knownProBlocks ?s (copyID [2]) = Some parentBlk"
    by (simp add: example_defs)
  have w: "wrpdToProID ?s (copyID [1]) = Some (copyID [2])"
    by (simp add: example_defs)
  have c: "coreID (coreBlk parentBlk) = copyID [1]"
    by (simp add: example_defs)
  from Accept_cache [of ?s "childBlk 0 1005 7 (Some (ErrExternal ''inner''))"]
  have 1: "Accept ?s (childBlk 0 1005 7 (Some (ErrExternal ''inner'')))
     = (Some (ErrExternal ''inner''), ?s)"
    by (simp add: a prod_eq_iff)
  from Accept_cache [of ?s "childBlk 0 1005 7 None"] k c
  have 2: "fst (Accept ?s (childBlk 0 1005 7 None)) = None \<and>
   knownProBlocks (snd (Accept ?s (childBlk 0 1005 7 None))) (copyID [2]) = None \<and>
   wrpdToProID (snd (Accept ?s (childBlk 0 1005 7 None))) (copyID [1]) = None"
    by (simp add: a p)
  from 1 2 k w show ?thesis by simp
qed

section \<open>Committing a block\<close>

text \<open>
  C1 at a failing input. The block is in both caches, both \<^verbatim>\<open>Put\<close>s and
  \<^verbatim>\<open>CommitBatch\<close> succeed and \<^verbatim>\<open>batch.Write\<close> fails: \<^verbatim>\<open>commitBlk\<close> returns the error
  and the block is still in both caches.
\<close>

theorem commitBlk_write_failure_keeps_cache:
  "fst (commitBlk writeFails (cacheProBlk parentBlk newState) parentBlk)
     = Some (ErrExternal ''batch write failed'') \<and>
   knownProBlocks (snd (commitBlk writeFails (cacheProBlk parentBlk newState) parentBlk))
     (id_pb parentBlk) = Some parentBlk \<and>
   wrpdToProID (snd (commitBlk writeFails (cacheProBlk parentBlk newState) parentBlk))
     (coreID (coreBlk parentBlk)) = Some (id_pb parentBlk)"
  by (simp add: commitBlk_def writeFails_def Let_def example_defs)

text \<open>
  C2 at a failing input. The block was never cached and every database call succeeds:
  \<^verbatim>\<open>commitBlk\<close> returns no error and the inverse store holds 32 zero bytes under the
  inner id, which is not the id of the block.
\<close>

theorem commitBlk_uncached_writes_zero_id:
  "fst (commitBlk noFaults newState parentBlk) = None \<and>
   wrpdToProIDDB (snd (commitBlk noFaults newState parentBlk))
     (Rep_id32 (coreID (coreBlk parentBlk))) = Some (replicate 32 0) \<and>
   Rep_id32 (id_pb parentBlk) \<noteq> replicate 32 0"
proof -
  have "hd (Rep_id32 (id_pb parentBlk)) \<noteq> hd (replicate 32 (0 :: byte))"
    by (simp add: example_defs copyID.rep_eq)
  then have "Rep_id32 (id_pb parentBlk) \<noteq> replicate 32 0"
    by auto
  then show ?thesis
    by (simp add: commitBlk_def noFaults_def Let_def newState_def zeroID.rep_eq)
qed

end
